theory Spec2Isabelle
  imports Complex_Main
begin

section \<open>Numbers and strings of the source\<close>

text \<open>
  The program is JavaScript. Its numbers are modelled as exact reals: the functions below
  compute the arithmetic the source writes down (\<open>/ 255\<close>, \<open>shade / 100\<close>,
  \<open>Math.round\<close>) without the rounding of IEEE doubles. For an achromatic color and an
  integer shade the two agree. For a chromatic color the doubles of the program can write
  a channel one level off where the exact value lies on a rounding tie; what the program
  can return there is given by \<open>adjustsTo\<close> below. Strings are \<open>char list\<close>s; only ASCII
  characters are inspected by the code modelled here.
\<close>

subsection \<open>Hex digits, \<open>parseInt(_, 16)\<close> and \<open>toString(16)\<close>\<close>

text \<open>The character class \<open>[0-9A-Fa-f]\<close> and the value of a digit in it.\<close>

definition hexDigitValue :: "char \<Rightarrow> nat option" where
  "hexDigitValue c =
     (let n = (of_char c :: nat) in
      if 48 \<le> n \<and> n \<le> 57 then Some (n - 48)
      else if 65 \<le> n \<and> n \<le> 70 then Some (n - 55)
      else if 97 \<le> n \<and> n \<le> 102 then Some (n - 87)
      else None)"

definition isHexDigit :: "char \<Rightarrow> bool" where
  "isHexDigit c = (hexDigitValue c \<noteq> None)"

text \<open>\<open>/^[0-9A-Fa-f]{6}$/.test(s)\<close>: exactly six characters, each a hex digit.\<close>

definition hexRegexTest :: "string \<Rightarrow> bool" where
  "hexRegexTest s = (length s = 6 \<and> list_all isHexDigit s)"

text \<open>
  \<open>parseInt(s, 16)\<close> on a string of hex digits (the only strings it is called on: the
  regular expression has accepted the six characters before). A character outside the
  class would end the parse in JavaScript; it ends it here too.
\<close>

fun parseHexFrom :: "nat \<Rightarrow> string \<Rightarrow> nat" where
  "parseHexFrom acc [] = acc"
| "parseHexFrom acc (c # cs) =
     (case hexDigitValue c of
        None \<Rightarrow> acc
      | Some d \<Rightarrow> parseHexFrom (16 * acc + d) cs)"

definition parseInt16 :: "string \<Rightarrow> nat" where
  "parseInt16 s = parseHexFrom 0 s"

text \<open>\<open>s.substr(start, len)\<close>.\<close>

definition substr :: "string \<Rightarrow> nat \<Rightarrow> nat \<Rightarrow> string" where
  "substr s start len = take len (drop start s)"

text \<open>\<open>n.toString(16)\<close> for an integer \<open>n\<close>: lowercase digits, a minus sign when negative.\<close>

definition hexChar :: "nat \<Rightarrow> char" where
  "hexChar d = ''0123456789abcdef'' ! d"

fun hexDigits :: "nat \<Rightarrow> string" where
  "hexDigits n = (if n < 16 then [hexChar n] else hexDigits (n div 16) @ [hexChar (n mod 16)])"

declare hexDigits.simps [simp del]

definition toString16 :: "int \<Rightarrow> string" where
  "toString16 i = (if i < 0 then CHR ''-'' # hexDigits (nat (- i)) else hexDigits (nat i))"

subsection \<open>\<open>adjustColorBrightness\<close> and \<open>hueToRgb\<close>\<close>

text \<open>\<open>hueToRgb(p, q, t)\<close>, with the two reassignments of \<open>t\<close> written as \<open>t1\<close>, \<open>t2\<close>.\<close>

definition hueToRgb :: "real \<Rightarrow> real \<Rightarrow> real \<Rightarrow> real" where
  "hueToRgb p q t =
     (let t1 = (if t < 0 then t + 1 else t);
          t2 = (if t1 > 1 then t1 - 1 else t1)
      in if t2 < 1 / 6 then p + (q - p) * 6 * t2
         else if t2 < 1 / 2 then q
         else if t2 < 2 / 3 then p + (q - p) * (2 / 3 - t2) * 6
         else p)"

text \<open>
  The block "Convert RGB to HSL" of \<open>adjustColorBrightness\<close>: it yields \<open>(h, s, l)\<close>.
  The \<open>switch (max)\<close> compares with \<open>r\<close>, \<open>g\<close>, \<open>b\<close> in this order.
\<close>

definition rgbToHsl :: "real \<Rightarrow> real \<Rightarrow> real \<Rightarrow> real \<times> real \<times> real" where
  "rgbToHsl r g b =
     (let mx = max (max r g) b;
          mn = min (min r g) b;
          l = (mx + mn) / 2
      in if mx = mn then (0, 0, l)
         else
           let d = mx - mn;
               s = (if l > 1 / 2 then d / (2 - mx - mn) else d / (mx + mn));
               h = (if mx = r then (g - b) / d + (if g < b then 6 else 0)
                    else if mx = g then (b - r) / d + 2
                    else if mx = b then (r - g) / d + 4
                    else 0)
           in (h / 6, s, l))"

text \<open>
  The block "Convert HSL back to RGB": it yields \<open>(newR, newG, newB)\<close>, here the exact
  values of the expressions for \<open>q\<close>, \<open>p\<close> and the channels.
\<close>

definition hslToRgb :: "real \<Rightarrow> real \<Rightarrow> real \<Rightarrow> real \<times> real \<times> real" where
  "hslToRgb h s l =
     (if s = 0 then (l, l, l)
      else
        let q = (if l < 1 / 2 then l * (1 + s) else l + s - l * s);
            p = 2 * l - q
        in (hueToRgb p q (h + 1 / 3), hueToRgb p q h, hueToRgb p q (h - 1 / 3)))"

text \<open>The local function \<open>toHex\<close>; \<open>Math.round x\<close> is \<open>\<lfloor>x + 1/2\<rfloor>\<close>, which is \<^const>\<open>round\<close>.\<close>

definition toHex :: "real \<Rightarrow> string" where
  "toHex c =
     (let hex = toString16 (round (c * 255))
      in if length hex = 1 then CHR ''0'' # hex else hex)"

text \<open>\<open>hexColor.startsWith('#') ? hexColor.slice(1) : hexColor\<close>.\<close>

definition cleanHexOf :: "string \<Rightarrow> string" where
  "cleanHexOf hexColor =
     (case hexColor of
        c # cs \<Rightarrow> (if c = CHR ''#'' then cs else hexColor)
      | [] \<Rightarrow> hexColor)"

text \<open>The three channels read from the clean hex string, each divided by 255.\<close>

definition hexToRgb :: "string \<Rightarrow> real \<times> real \<times> real" where
  "hexToRgb cleanHex =
     (real (parseInt16 (substr cleanHex 0 2)) / 255,
      real (parseInt16 (substr cleanHex 2 2)) / 255,
      real (parseInt16 (substr cleanHex 4 2)) / 255)"

definition adjustColorBrightness :: "string \<Rightarrow> real \<Rightarrow> string" where
  "adjustColorBrightness hexColor shade =
     (let cleanHex = cleanHexOf hexColor
      in if \<not> hexRegexTest cleanHex then hexColor
         else
           case hexToRgb cleanHex of (r, g, b) \<Rightarrow>
           case rgbToHsl r g b of (h, s, l0) \<Rightarrow>
           let l = shade / 100
           in case hslToRgb h s l of (newR, newG, newB) \<Rightarrow>
              CHR ''#'' # toHex newR @ toHex newG @ toHex newB)"

text \<open>
  From the specification's words, for comparison with the test the source makes: the
  canonical form of a color is six hex digits, with an optional leading \<open>#\<close>.
\<close>

definition canonicalHex :: "string \<Rightarrow> bool" where
  "canonicalHex x =
     (hexRegexTest x \<or> (case x of c # cs \<Rightarrow> c = CHR ''#'' \<and> hexRegexTest cs | [] \<Rightarrow> False))"

text \<open>
  From the specification's words, for comparison with \<open>toHex\<close>: a channel value
  \<open>n \<le> 255\<close> written as two lowercase hex digits, zero-padded.
\<close>

definition twoDigitHex :: "nat \<Rightarrow> string" where
  "twoDigitHex n = [hexChar (n div 16), hexChar (n mod 16)]"

subsection \<open>The doubles of the program\<close>

text \<open>
  The functions above compute in exact arithmetic. The program computes the same
  expressions in IEEE doubles, so what it hands to \<open>Math.round\<close> for a channel of exact
  value \<open>x\<close> is \<open>x * 255\<close> up to the rounding error accumulated on the way, which is
  many orders of magnitude below \<open>roundingSlack\<close>. The level it writes is therefore an
  integer within \<open>1/2 + roundingSlack\<close> of \<open>x * 255\<close>: this is \<open>round (x * 255)\<close>,
  except that on a rounding tie, or next to one, it can be the other neighbour.
\<close>

definition roundingSlack :: real where
  "roundingSlack = 1 / 1000000"

definition admissibleLevel :: "real \<Rightarrow> nat \<Rightarrow> bool" where
  "admissibleLevel x k = (\<bar>real k - x * 255\<bar> \<le> 1 / 2 + roundingSlack)"

text \<open>
  The three levels written in a string of the form that \<open>adjustColorBrightness\<close>
  returns for a valid color: \<open>#\<close> and three times two lowercase hex digits.
\<close>

definition levelsOf :: "string \<Rightarrow> (nat \<times> nat \<times> nat) option" where
  "levelsOf out =
     (case out of
        [] \<Rightarrow> None
      | c # cs \<Rightarrow>
          (let kr = parseInt16 (substr cs 0 2);
               kg = parseInt16 (substr cs 2 2);
               kb = parseInt16 (substr cs 4 2)
           in if c = CHR ''#'' \<and> hexRegexTest cs
                 \<and> cs = twoDigitHex kr @ twoDigitHex kg @ twoDigitHex kb
              then Some (kr, kg, kb) else None))"

text \<open>
  \<open>adjustsTo hexColor shade out\<close>: the string \<open>out\<close> is one that the program, computing
  in doubles, can return from \<open>adjustColorBrightness(hexColor, shade)\<close>. An invalid
  color is returned as it is; for a valid one each channel is written at an admissible
  level of its exact value.
\<close>

definition adjustsTo :: "string \<Rightarrow> real \<Rightarrow> string \<Rightarrow> bool" where
  "adjustsTo hexColor shade out =
     (let cleanHex = cleanHexOf hexColor
      in if \<not> hexRegexTest cleanHex then out = hexColor
         else
           case hexToRgb cleanHex of (r, g, b) \<Rightarrow>
           case rgbToHsl r g b of (h, s, l0) \<Rightarrow>
           case hslToRgb h s (shade / 100) of (newR, newG, newB) \<Rightarrow>
           (case levelsOf out of
              None \<Rightarrow> False
            | Some (kr, kg, kb) \<Rightarrow>
                admissibleLevel newR kr \<and> admissibleLevel newG kg
                \<and> admissibleLevel newB kb))"

text \<open>The distance that an admissible level allows between a channel and its exact value.\<close>

definition channelTolerance :: real where
  "channelTolerance = (1 / 2 + roundingSlack) / 255"

section \<open>The scene graph\<close>

text \<open>
  The JSX of the source builds a three.js scene graph. A node is a mesh (a leaf with a
  geometry and a material) or a group with children. Only the outer group that
  \<open>Scene\<close> creates for a furniture item is given \<open>userData = { id }\<close>; every other
  object keeps three.js's default \<open>userData = {}\<close>, whose \<open>id\<close> is \<open>undefined\<close>
  (\<open>None\<close> here).
\<close>

datatype Vector3 = Vector3 (vx: real) (vy: real) (vz: real)

datatype geometry =
    BoxGeometry real real real
  | CylinderGeometry real real real nat
  | ConeGeometry real real nat
  | SphereGeometry real nat nat
  | PlaneGeometry real real

text \<open>\<open>meshStandardMaterial\<close>: the properties the source sets; \<open>None\<close> for one it leaves out.\<close>

record material =
  mat_map :: "string option"
  mat_color :: string
  mat_roughness :: "real option"
  mat_metalness :: "real option"
  mat_emissive :: "string option"
  mat_emissiveIntensity :: "real option"

datatype object3d =
    Mesh (meshPosition: Vector3) (meshRotation: Vector3) (meshGeometry: geometry)
         (meshMaterial: material) (castShadow: bool) (receiveShadow: bool)
  | Group (groupUserDataId: "string option") (groupPosition: Vector3) (groupScale: real)
          (groupChildren: "object3d list")

fun userDataId :: "object3d \<Rightarrow> string option" where
  "userDataId (Mesh _ _ _ _ _ _) = None"
| "userDataId (Group u _ _ _) = u"

fun childrenOf :: "object3d \<Rightarrow> object3d list" where
  "childrenOf (Mesh _ _ _ _ _ _) = []"
| "childrenOf (Group _ _ _ cs) = cs"

text \<open>
  A material textured with the file \<open>tex\<close> (the texture that \<open>useLoader\<close> loads from
  that path), and a mesh with \<open>castShadow receiveShadow\<close> and no rotation.
\<close>

definition texturedMaterial :: "string \<Rightarrow> string \<Rightarrow> real \<Rightarrow> real option \<Rightarrow> material" where
  "texturedMaterial tex col rough metal =
     \<lparr>mat_map = Some tex, mat_color = col, mat_roughness = Some rough,
      mat_metalness = metal, mat_emissive = None, mat_emissiveIntensity = None\<rparr>"

definition shadowMesh :: "Vector3 \<Rightarrow> geometry \<Rightarrow> material \<Rightarrow> object3d" where
  "shadowMesh pos geom mat = Mesh pos (Vector3 0 0 0) geom mat True True"

section \<open>Furniture descriptors and builders\<close>

text \<open>
  A furniture descriptor. An optional field that is absent (\<open>undefined\<close>) is \<open>None\<close>.
  The source reads the fields through \<open>||\<close>, which replaces every falsy value by the
  default: \<open>undefined\<close>, the number 0 and the empty string.
\<close>

record furnitureItem =
  item_id :: string
  item_type :: string
  item_x :: "real option"
  item_z :: "real option"
  item_scale :: "real option"
  item_color :: "string option"
  item_shade :: "real option"

definition orNum :: "real option \<Rightarrow> real \<Rightarrow> real" where
  "orNum v d = (case v of None \<Rightarrow> d | Some n \<Rightarrow> if n = 0 then d else n)"

definition orStr :: "string option \<Rightarrow> string \<Rightarrow> string" where
  "orStr v d = (case v of None \<Rightarrow> d | Some s \<Rightarrow> if s = [] then d else s)"

definition woodTexture :: string where
  "woodTexture = ''/textures/wood_025_diff_1k.jpg''"

definition fabricTexture :: string where
  "fabricTexture = ''/textures/fabric_001_diff_1k.jpg''"

definition metalTexture :: string where
  "metalTexture = ''/textures/metal_001_diff_1k.jpg''"

definition itemPosition :: "furnitureItem \<Rightarrow> real \<Rightarrow> Vector3" where
  "itemPosition item roomHeight =
     Vector3 (orNum (item_x item) 0) (- roomHeight / 2) (orNum (item_z item) 0)"

definition Chair :: "furnitureItem \<Rightarrow> real \<Rightarrow> object3d" where
  "Chair item roomHeight =
     (let scale = orNum (item_scale item) 1;
          color = adjustColorBrightness (orStr (item_color item) ''#8B4513'')
                    (orNum (item_shade item) 50);
          mat = texturedMaterial woodTexture color 0.7 None
      in Group None (itemPosition item roomHeight) scale
           [shadowMesh (Vector3 0 0.5 0) (BoxGeometry 1 0.1 1) mat,
            shadowMesh (Vector3 0 1.2 (- 0.4)) (BoxGeometry 1 0.8 0.1) mat,
            shadowMesh (Vector3 (- 0.4) 0.25 (- 0.4)) (CylinderGeometry 0.05 0.05 0.5 16) mat,
            shadowMesh (Vector3 (- 0.4) 0.25 0.4) (CylinderGeometry 0.05 0.05 0.5 16) mat,
            shadowMesh (Vector3 0.4 0.25 (- 0.4)) (CylinderGeometry 0.05 0.05 0.5 16) mat,
            shadowMesh (Vector3 0.4 0.25 0.4) (CylinderGeometry 0.05 0.05 0.5 16) mat])"

definition Table :: "furnitureItem \<Rightarrow> real \<Rightarrow> object3d" where
  "Table item roomHeight =
     (let scale = orNum (item_scale item) 1;
          color = adjustColorBrightness (orStr (item_color item) ''#8B4513'')
                    (orNum (item_shade item) 50);
          mat = texturedMaterial woodTexture color 0.7 None
      in Group None (itemPosition item roomHeight) scale
           [shadowMesh (Vector3 0 0.8 0) (BoxGeometry 2 0.2 1.5) mat,
            shadowMesh (Vector3 (- 0.9) 0.4 (- 0.65)) (CylinderGeometry 0.05 0.05 0.8 16) mat,
            shadowMesh (Vector3 (- 0.9) 0.4 0.65) (CylinderGeometry 0.05 0.05 0.8 16) mat,
            shadowMesh (Vector3 0.9 0.4 (- 0.65)) (CylinderGeometry 0.05 0.05 0.8 16) mat,
            shadowMesh (Vector3 0.9 0.4 0.65) (CylinderGeometry 0.05 0.05 0.8 16) mat])"

definition Sofa :: "furnitureItem \<Rightarrow> real \<Rightarrow> object3d" where
  "Sofa item roomHeight =
     (let scale = orNum (item_scale item) 1;
          color = adjustColorBrightness (orStr (item_color item) ''#4B0082'')
                    (orNum (item_shade item) 30);
          mat = texturedMaterial fabricTexture color 0.8 None
      in Group None (itemPosition item roomHeight) scale
           [shadowMesh (Vector3 0 0.5 0) (BoxGeometry 3 0.5 1) mat,
            shadowMesh (Vector3 0 1 (- 0.4)) (BoxGeometry 3 1 0.2) mat,
            shadowMesh (Vector3 (- 1.3) 0.75 0) (BoxGeometry 0.4 0.5 1) mat,
            shadowMesh (Vector3 1.3 0.75 0) (BoxGeometry 0.4 0.5 1) mat])"

definition Bookshelf :: "furnitureItem \<Rightarrow> real \<Rightarrow> object3d" where
  "Bookshelf item roomHeight =
     (let scale = orNum (item_scale item) 1;
          color = adjustColorBrightness (orStr (item_color item) ''#8B4513'')
                    (orNum (item_shade item) 50);
          mat = texturedMaterial woodTexture color 0.7 None
      in Group None (itemPosition item roomHeight) scale
           [shadowMesh (Vector3 0 1 0) (BoxGeometry 2 2 0.5) mat,
            shadowMesh (Vector3 0 0.5 0) (BoxGeometry 2 0.1 0.5) mat,
            shadowMesh (Vector3 0 1.5 0) (BoxGeometry 2 0.1 0.5) mat])"

definition TVStand :: "furnitureItem \<Rightarrow> real \<Rightarrow> object3d" where
  "TVStand item roomHeight =
     (let scale = orNum (item_scale item) 1;
          color = adjustColorBrightness (orStr (item_color item) ''#2F4F4F'')
                    (orNum (item_shade item) 50);
          mat = texturedMaterial woodTexture color 0.7 None
      in Group None (itemPosition item roomHeight) scale
           [shadowMesh (Vector3 0 0.5 0) (BoxGeometry 3 0.8 0.8) mat,
            shadowMesh (Vector3 0 0.2 0) (BoxGeometry 3 0.1 0.8) mat])"

definition Bed :: "furnitureItem \<Rightarrow> real \<Rightarrow> object3d" where
  "Bed item roomHeight =
     (let scale = orNum (item_scale item) 1;
          color = adjustColorBrightness (orStr (item_color item) ''#4682B4'')
                    (orNum (item_shade item) 30);
          mat = texturedMaterial fabricTexture color 0.8 None
      in Group None (itemPosition item roomHeight) scale
           [shadowMesh (Vector3 0 0.4 0) (BoxGeometry 2.5 0.4 4) mat,
            shadowMesh (Vector3 0 0.8 (- 1.8)) (BoxGeometry 2.5 0.6 0.4) mat,
            shadowMesh (Vector3 (- 1.1) 0.2 (- 1.8)) (CylinderGeometry 0.1 0.1 0.4 16) mat,
            shadowMesh (Vector3 1.1 0.2 (- 1.8)) (CylinderGeometry 0.1 0.1 0.4 16) mat,
            shadowMesh (Vector3 (- 1.1) 0.2 1.8) (CylinderGeometry 0.1 0.1 0.4 16) mat,
            shadowMesh (Vector3 1.1 0.2 1.8) (CylinderGeometry 0.1 0.1 0.4 16) mat])"

text \<open>The bulb of the lamp has a fixed emissive material and only \<open>castShadow\<close>.\<close>

definition bulbMaterial :: material where
  "bulbMaterial =
     \<lparr>mat_map = None, mat_color = ''#ffffe0'', mat_roughness = None, mat_metalness = None,
      mat_emissive = Some ''#ffffe0'', mat_emissiveIntensity = Some 0.8\<rparr>"

definition Lamp :: "furnitureItem \<Rightarrow> real \<Rightarrow> object3d" where
  "Lamp item roomHeight =
     (let scale = orNum (item_scale item) 1;
          color = adjustColorBrightness (orStr (item_color item) ''#FFD700'')
                    (orNum (item_shade item) 70);
          mat = texturedMaterial metalTexture color 0.6 (Some 0.8)
      in Group None (itemPosition item roomHeight) scale
           [shadowMesh (Vector3 0 0.5 0) (CylinderGeometry 0.2 0.2 1 16) mat,
            shadowMesh (Vector3 0 1.2 0) (ConeGeometry 0.4 0.6 16) mat,
            Mesh (Vector3 0 1.5 0) (Vector3 0 0 0) (SphereGeometry 0.2 16 16) bulbMaterial
              True False])"

text \<open>
  The body of \<open>furniture.map\<close> in \<open>Scene\<close>: seven expressions \<open>item.type === tag && <X />\<close>,
  each contributing its element or nothing, inside the group that carries
  \<open>userData = { id: item.id }\<close>.
\<close>

definition furnitureChildren :: "furnitureItem \<Rightarrow> real \<Rightarrow> object3d list" where
  "furnitureChildren item roomHeight =
     (if item_type item = ''chair'' then [Chair item roomHeight] else []) @
     (if item_type item = ''table'' then [Table item roomHeight] else []) @
     (if item_type item = ''sofa'' then [Sofa item roomHeight] else []) @
     (if item_type item = ''bookshelf'' then [Bookshelf item roomHeight] else []) @
     (if item_type item = ''tvstand'' then [TVStand item roomHeight] else []) @
     (if item_type item = ''bed'' then [Bed item roomHeight] else []) @
     (if item_type item = ''lamp'' then [Lamp item roomHeight] else [])"

definition furnitureGroup :: "furnitureItem \<Rightarrow> real \<Rightarrow> object3d" where
  "furnitureGroup item roomHeight =
     Group (Some (item_id item)) (Vector3 0 0 0) 1 (furnitureChildren item roomHeight)"

definition sceneFurniture :: "furnitureItem list \<Rightarrow> real \<Rightarrow> object3d list" where
  "sceneFurniture furniture roomHeight = map (\<lambda>item. furnitureGroup item roomHeight) furniture"

section \<open>The room shell\<close>

record room =
  room_width :: "real option"
  room_height :: "real option"
  room_depth :: "real option"
  room_color :: "string option"
  room_wallTexture :: "string option"

text \<open>The six surfaces of \<open>Room\<close> have \<open>receiveShadow\<close> only.\<close>

definition surfaceMesh :: "Vector3 \<Rightarrow> Vector3 \<Rightarrow> geometry \<Rightarrow> material \<Rightarrow> object3d" where
  "surfaceMesh pos rot geom mat = Mesh pos rot geom mat False True"

definition Room :: "room \<Rightarrow> object3d" where
  "Room room =
     (let wallTexture = ''/textures/'' @
            orStr (room_wallTexture room) ''patterned_concrete_wall_diff_1k.jpg'';
          floorTexture = ''/textures/wooden_floor_02_diff_1k.jpg'';
          ceilingTexture = ''/textures/ceiling_tile_diff_1k.jpg'';
          width = orNum (room_width room) 10;
          height = orNum (room_height room) 5;
          depth = orNum (room_depth room) 10;
          wallColor = orStr (room_color room) ''#f0f0f0''
      in Group None (Vector3 0 0 0) 1
           [surfaceMesh (Vector3 0 (- height / 2) 0) (Vector3 (- pi / 2) 0 0)
              (PlaneGeometry width depth) (texturedMaterial floorTexture wallColor 0.6 None),
            surfaceMesh (Vector3 0 (height / 2) 0) (Vector3 (pi / 2) 0 0)
              (PlaneGeometry width depth) (texturedMaterial ceilingTexture wallColor 0.4 None),
            surfaceMesh (Vector3 0 0 (- depth / 2)) (Vector3 0 0 0)
              (PlaneGeometry width height) (texturedMaterial wallTexture wallColor 0.5 None),
            surfaceMesh (Vector3 0 0 (depth / 2)) (Vector3 0 pi 0)
              (PlaneGeometry width height) (texturedMaterial wallTexture wallColor 0.5 None),
            surfaceMesh (Vector3 (- width / 2) 0 0) (Vector3 0 (pi / 2) 0)
              (PlaneGeometry depth height) (texturedMaterial wallTexture wallColor 0.5 None),
            surfaceMesh (Vector3 (width / 2) 0 0) (Vector3 0 (- pi / 2) 0)
              (PlaneGeometry depth height) (texturedMaterial wallTexture wallColor 0.5 None)])"

text \<open>
  Library behaviour (three.js, not code of the repository): a \<open>rotation\<close> is a triple of
  Euler angles applied in the order XYZ, that is, the vector is turned about the z axis,
  then y, then x; a \<open>PlaneGeometry\<close> lies in the xy plane and faces \<open>+z\<close>. The direction
  a surface of the room faces is its rotation applied to \<open>(0, 0, 1)\<close>.
\<close>

definition rotateX :: "real \<Rightarrow> Vector3 \<Rightarrow> Vector3" where
  "rotateX a v = Vector3 (vx v) (vy v * cos a - vz v * sin a) (vy v * sin a + vz v * cos a)"

definition rotateY :: "real \<Rightarrow> Vector3 \<Rightarrow> Vector3" where
  "rotateY a v = Vector3 (vx v * cos a + vz v * sin a) (vy v) (- vx v * sin a + vz v * cos a)"

definition rotateZ :: "real \<Rightarrow> Vector3 \<Rightarrow> Vector3" where
  "rotateZ a v = Vector3 (vx v * cos a - vy v * sin a) (vx v * sin a + vy v * cos a) (vz v)"

definition applyEuler :: "Vector3 \<Rightarrow> Vector3 \<Rightarrow> Vector3" where
  "applyEuler e v = rotateX (vx e) (rotateY (vy e) (rotateZ (vz e) v))"

definition facing :: "object3d \<Rightarrow> Vector3" where
  "facing m = applyEuler (meshRotation m) (Vector3 0 0 1)"

section \<open>Cameras and the view mode\<close>





text \<open>
  Library behaviour (three.js, not code of the repository), after \<open>Math.atan2\<close>,
  \<open>MathUtils.clamp\<close>, \<open>Spherical.setFromVector3\<close>, \<open>Spherical.makeSafe\<close> and
  \<open>Vector3.setFromSpherical\<close>. A spherical coordinate is \<open>(radius, phi, theta)\<close>, with
  \<open>phi\<close> the polar angle from the y axis and \<open>theta\<close> the angle about it.
\<close>

definition atan2 :: "real \<Rightarrow> real \<Rightarrow> real" where
  "atan2 y x =
     (if 0 < x then arctan (y / x)
      else if x < 0 then (if 0 \<le> y then arctan (y / x) + pi else arctan (y / x) - pi)
      else if 0 < y then pi / 2
      else if y < 0 then - pi / 2
      else 0)"

definition clamp :: "real \<Rightarrow> real \<Rightarrow> real \<Rightarrow> real" where
  "clamp v lo hi = max lo (min hi v)"

definition setFromVector3 :: "Vector3 \<Rightarrow> real \<times> real \<times> real" where
  "setFromVector3 v =
     (let radius = sqrt (vx v * vx v + vy v * vy v + vz v * vz v)
      in if radius = 0 then (radius, 0, 0)
         else (radius, arccos (clamp (vy v / radius) (- 1) 1), atan2 (vx v) (vz v)))"

definition makeSafe :: "real \<Rightarrow> real" where
  "makeSafe phi = clamp phi 0.000001 (pi - 0.000001)"

definition setFromSpherical :: "real \<times> real \<times> real \<Rightarrow> Vector3" where
  "setFromSpherical sph =
     (case sph of (radius, phi, theta) \<Rightarrow>
        (let sinPhiRadius = sin phi * radius
         in Vector3 (sinPhiRadius * sin theta) (cos phi * radius) (sinPhiRadius * cos theta)))"

text \<open>
  Library behaviour, after \<open>OrbitControls.update\<close>, for controls at rest (no rotation,
  pan or zoom of the user is pending) with the limits three.js gives them: polar angle
  from 0 to \<open>\<pi>\<close>, distance from 0 up, the azimuth free, and the camera's up vector
  \<open>(0, 1, 0)\<close>. The camera is put back at the spherical coordinates of its offset from
  the target, after the polar angle has been clamped; the result is its new position,
  here in exact arithmetic (the doubles of the program can differ from it in the last
  place, and no statement below depends on the coordinates it gives at the free preset).
\<close>

definition orbitPosition :: "Vector3 \<Rightarrow> Vector3 \<Rightarrow> Vector3" where
  "orbitPosition target position =
     (let offset = Vector3 (vx position - vx target) (vy position - vy target)
                     (vz position - vz target)
      in case setFromVector3 offset of (radius, phi, theta) \<Rightarrow>
           (let phi1 = max 0 (min pi phi);
                phi2 = makeSafe phi1;
                radius1 = max 0 radius;
                offset1 = setFromSpherical (radius1, phi2, theta)
            in Vector3 (vx target + vx offset1) (vy target + vy offset1)
                 (vz target + vz offset1)))"

text \<open>
  The state the view-mode effect writes: where the camera is, the point it was last
  turned to with \<open>lookAt\<close>, and the orbit controls (\<open>controlsRef.current\<close>, \<open>None\<close>
  while the ref is unset) with their gesture flags and their target.
\<close>

record controls =
  enableRotate :: bool
  enableZoom :: bool
  enablePan :: bool
  ctl_target :: Vector3

record viewState =
  cam_position :: Vector3
  cam_lookAt :: Vector3
  cam_controls :: "controls option"

text \<open>
  \<open>controlsRef.current.update()\<close>: the camera is moved to \<open>orbitPosition\<close> and turned
  to the target of the controls.
\<close>

definition controlsUpdate :: "controls \<Rightarrow> viewState \<Rightarrow> viewState" where
  "controlsUpdate c st =
     st\<lparr>cam_position := orbitPosition (ctl_target c) (cam_position st),
        cam_lookAt := ctl_target c,
        cam_controls := Some c\<rparr>"

definition viewModeEffect :: "string \<Rightarrow> viewState \<Rightarrow> viewState" where
  "viewModeEffect viewMode st =
     (if viewMode = ''2D''
      then
        (let st1 = st\<lparr>cam_position := Vector3 0 10 0, cam_lookAt := Vector3 0 0 0\<rparr>
         in case cam_controls st of
              None \<Rightarrow> st1
            | Some c \<Rightarrow>
                controlsUpdate
                  (c\<lparr>enableRotate := False, enableZoom := True, enablePan := True\<rparr>) st1)
      else
        (let st1 = st\<lparr>cam_position := Vector3 10 10 10, cam_lookAt := Vector3 0 0 0\<rparr>
         in case cam_controls st of
              None \<Rightarrow> st1
            | Some c \<Rightarrow>
                controlsUpdate
                  (c\<lparr>enableRotate := True, enableZoom := True, enablePan := True\<rparr>) st1))"

section \<open>Picking and dragging\<close>

subsection \<open>Rays and planes of three.js\<close>

text \<open>
  Library behaviour (three.js, not code of the repository), after its \<open>Plane\<close> and
  \<open>Ray\<close> classes. \<open>new Plane(normal, constant)\<close> is the set of points \<open>p\<close> with
  \<open>normal \<cdot> p + constant = 0\<close>: \<open>distanceToPoint\<close> is \<open>normal \<cdot> p + constant\<close>.
  \<open>Ray.distanceToPlane\<close> gives \<open>null\<close> for a ray parallel to the plane and off it, 0 for
  one inside the plane, and otherwise the ray parameter \<open>t\<close> when \<open>t \<ge> 0\<close>;
  \<open>Ray.intersectPlane\<close> is the point at that parameter.
\<close>

datatype Ray = Ray (rayOrigin: Vector3) (rayDirection: Vector3)

datatype Plane = Plane (planeNormal: Vector3) (planeConstant: real)

definition dot :: "Vector3 \<Rightarrow> Vector3 \<Rightarrow> real" where
  "dot a b = vx a * vx b + vy a * vy b + vz a * vz b"

definition distanceToPoint :: "Plane \<Rightarrow> Vector3 \<Rightarrow> real" where
  "distanceToPoint plane p = dot (planeNormal plane) p + planeConstant plane"

definition distanceToPlane :: "Ray \<Rightarrow> Plane \<Rightarrow> real option" where
  "distanceToPlane ray plane =
     (let denominator = dot (planeNormal plane) (rayDirection ray)
      in if denominator = 0
         then (if distanceToPoint plane (rayOrigin ray) = 0 then Some 0 else None)
         else
           let t = - (dot (rayOrigin ray) (planeNormal plane) + planeConstant plane) / denominator
           in if t \<ge> 0 then Some t else None)"

definition rayAt :: "Ray \<Rightarrow> real \<Rightarrow> Vector3" where
  "rayAt ray t =
     Vector3 (vx (rayOrigin ray) + t * vx (rayDirection ray))
             (vy (rayOrigin ray) + t * vy (rayDirection ray))
             (vz (rayOrigin ray) + t * vz (rayDirection ray))"

definition intersectPlane :: "Ray \<Rightarrow> Plane \<Rightarrow> Vector3 option" where
  "intersectPlane ray plane =
     (case distanceToPlane ray plane of None \<Rightarrow> None | Some t \<Rightarrow> Some (rayAt ray t))"

subsection \<open>The handlers of \<open>Scene\<close>\<close>

text \<open>
  \<open>useRef(new THREE.Plane(new THREE.Vector3(0, 1, 0), -room.height / 2))\<close>: the plane
  the drag is projected on.
\<close>

definition dragPlane :: "real \<Rightarrow> Plane" where
  "dragPlane roomHeight = Plane (Vector3 0 1 0) (- roomHeight / 2)"

text \<open>
  An entry of the array that \<open>raycaster.intersectObjects(objects, true)\<close> returns
  (three.js sorts it by distance, nearest first): the distance and the object hit, given
  by its path of child indices from the list of objects passed in. \<open>nodeAt\<close> follows a
  path; \<open>parentUserDataId\<close> is \<open>hit.object.parent.userData.id\<close>, \<open>undefined\<close> (\<open>None\<close>)
  also when the parent is the scene itself.
\<close>

record intersection =
  hit_distance :: real
  hit_object :: "nat list"

fun nodeAt :: "object3d list \<Rightarrow> nat list \<Rightarrow> object3d option" where
  "nodeAt objs [] = None"
| "nodeAt objs [i] = (if i < length objs then Some (objs ! i) else None)"
| "nodeAt objs (i # j # js) =
     (if i < length objs then nodeAt (childrenOf (objs ! i)) (j # js) else None)"

definition parentUserDataId :: "object3d list \<Rightarrow> nat list \<Rightarrow> string option" where
  "parentUserDataId objs path =
     (case nodeAt objs (butlast path) of None \<Rightarrow> None | Some parent \<Rightarrow> userDataId parent)"

text \<open>three.js reports intersections with meshes only: a group has no geometry to hit.\<close>

fun isMesh :: "object3d \<Rightarrow> bool" where
  "isMesh (Mesh _ _ _ _ _ _) = True"
| "isMesh (Group _ _ _ _) = False"

definition hitsMesh :: "object3d list \<Rightarrow> intersection \<Rightarrow> bool" where
  "hitsMesh objs hit = (case nodeAt objs (hit_object hit) of None \<Rightarrow> False | Some n \<Rightarrow> isMesh n)"

text \<open>\<open>Array.prototype.findIndex\<close>: the first index whose element passes, or \<open>-1\<close>.\<close>

fun findIndex :: "('a \<Rightarrow> bool) \<Rightarrow> 'a list \<Rightarrow> int" where
  "findIndex P [] = - 1"
| "findIndex P (x # xs) =
     (if P x then 0 else (let i = findIndex P xs in if i = - 1 then - 1 else i + 1))"

text \<open>
  \<open>handleMouseDown\<close>: from the current selection, the furniture list, the objects
  picked from and the intersections found, the new selection (\<open>null\<close> is \<open>None\<close>).
  When \<open>findIndex\<close> gives \<open>-1\<close> the source calls no setter: the selection stays.
\<close>

definition handleMouseDown ::
  "int option \<Rightarrow> furnitureItem list \<Rightarrow> object3d list \<Rightarrow> intersection list \<Rightarrow> int option" where
  "handleMouseDown selected furniture objs intersects =
     (case intersects of
        hit # _ \<Rightarrow>
          (let index = findIndex
                 (\<lambda>item. Some (item_id item) = parentUserDataId objs (hit_object hit)) furniture
           in if index \<noteq> - 1 then Some index else selected)
      | [] \<Rightarrow> None)"

text \<open>
  \<open>handleMouseMove\<close>: the calls of \<open>onUpdateFurniture\<close> it makes, each with the index
  and the object \<open>{ x, z }\<close>, for the ray that \<open>setFromCamera\<close> has cast.
\<close>

datatype update = UpdateFurniture int real real

definition handleMouseMove :: "int option \<Rightarrow> Ray \<Rightarrow> Plane \<Rightarrow> update list" where
  "handleMouseMove selected ray plane =
     (case selected of
        None \<Rightarrow> []
      | Some index \<Rightarrow>
          (case intersectPlane ray plane of
             None \<Rightarrow> []
           | Some point \<Rightarrow> [UpdateFurniture index (vx point) (vz point)]))"

definition handleMouseUp :: "int option" where
  "handleMouseUp = None"

section \<open>Notions of the specification and example inputs\<close>

text \<open>
  The hue, saturation and lightness implied by a color string: the triple that
  \<open>adjustColorBrightness\<close> computes from it before it replaces the lightness.
\<close>

definition hslOfHex :: "string \<Rightarrow> real \<times> real \<times> real" where
  "hslOfHex c = (case hexToRgb (cleanHexOf c) of (r, g, b) \<Rightarrow> rgbToHsl r g b)"

text \<open>The floor and the ceiling are the first and the second mesh of \<open>Room\<close>.\<close>

definition floorOf :: "room \<Rightarrow> object3d" where
  "floorOf room = groupChildren (Room room) ! 0"

definition ceilingOf :: "room \<Rightarrow> object3d" where
  "ceilingOf room = groupChildren (Room room) ! 1"

text \<open>
  For a builder and the default shade of its type: a shade or a scale that is present
  and 0 builds what an absent one builds, which is what the default value builds.
\<close>

definition zeroAsMissing ::
  "(furnitureItem \<Rightarrow> real \<Rightarrow> object3d) \<Rightarrow> real \<Rightarrow> furnitureItem \<Rightarrow> real \<Rightarrow> bool" where
  "zeroAsMissing build defaultShade item roomHeight =
     (build (item\<lparr>item_shade := Some 0\<rparr>) roomHeight
        = build (item\<lparr>item_shade := None\<rparr>) roomHeight
      \<and> build (item\<lparr>item_shade := None\<rparr>) roomHeight
        = build (item\<lparr>item_shade := Some defaultShade\<rparr>) roomHeight
      \<and> build (item\<lparr>item_scale := Some 0\<rparr>) roomHeight
        = build (item\<lparr>item_scale := None\<rparr>) roomHeight
      \<and> build (item\<lparr>item_scale := None\<rparr>) roomHeight
        = build (item\<lparr>item_scale := Some 1\<rparr>) roomHeight)"

text \<open>A room of width 10, height 5 and depth 14.\<close>

definition exampleRoom :: room where
  "exampleRoom = \<lparr>room_width = Some 10, room_height = Some 5, room_depth = Some 14,
                   room_color = None, room_wallTexture = None\<rparr>"

text \<open>A free view after the user has orbited: the camera is no longer at \<open>(10, 10, 10)\<close>.\<close>

definition orbitedFreeState :: viewState where
  "orbitedFreeState =
     \<lparr>cam_position = Vector3 5 5 5, cam_lookAt = Vector3 0 0 0,
      cam_controls = Some \<lparr>enableRotate = True, enableZoom = True, enablePan = True,
                            ctl_target = Vector3 0 0 0\<rparr>\<rparr>"

text \<open>A descriptor whose type is spelled \<open>tv-stand\<close>.\<close>

definition tvStandItem :: furnitureItem where
  "tvStandItem = \<lparr>item_id = ''t'', item_type = ''tv-stand'', item_x = None, item_z = None,
                   item_scale = None, item_color = None, item_shade = None\<rparr>"

text \<open>
  Two chairs \<open>a\<close> and \<open>b\<close>, and an intersection with the first mesh (the seat) of the
  chair of \<open>b\<close>: the path is item 1, its composition, the mesh 0.
\<close>

definition itemA :: furnitureItem where
  "itemA = \<lparr>item_id = ''a'', item_type = ''chair'', item_x = Some 0, item_z = Some 0,
            item_scale = None, item_color = None, item_shade = None\<rparr>"

definition itemB :: furnitureItem where
  "itemB = \<lparr>item_id = ''b'', item_type = ''chair'', item_x = Some 5, item_z = Some 0,
            item_scale = None, item_color = None, item_shade = None\<rparr>"

definition hitOnB :: intersection where
  "hitOnB = \<lparr>hit_distance = 12, hit_object = [1, 0, 0]\<rparr>"

text \<open>A pointer ray from the position of the free camera, pointing down into the room.\<close>

definition freeCameraRay :: Ray where
  "freeCameraRay = Ray (Vector3 10 10 10) (Vector3 (- 0.48) (- 0.8) (- 0.36))"

section \<open>The color adjustment\<close>

subsection \<open>Validation\<close>

lemma hash_not_hex: "\<not> isHexDigit CHR ''#''"
  by (simp add: isHexDigit_def hexDigitValue_def)

lemma canonicalHex_iff: "canonicalHex x = hexRegexTest (cleanHexOf x)"
proof (cases x)
  case Nil
  then show ?thesis by (simp add: canonicalHex_def cleanHexOf_def)
next
  case (Cons c cs)
  show ?thesis
  proof (cases "c = CHR ''#''")
    case True
    then have "\<not> hexRegexTest x" using Cons hash_not_hex by (simp add: hexRegexTest_def)
    then show ?thesis using Cons True by (simp add: canonicalHex_def cleanHexOf_def)
  next
    case False
    then show ?thesis using Cons by (simp add: canonicalHex_def cleanHexOf_def)
  qed
qed

text \<open>
  C5. On every string that is not of the canonical form (six hex digits, with an optional
  leading \<open>#\<close>), and for every shade, \<open>adjustColorBrightness\<close> returns the string
  it was given. The function has no failing path on a string: it is total.
\<close>

theorem adjust_invalid_unchanged:
  "\<not> canonicalHex x \<Longrightarrow> adjustColorBrightness x s = x"
  by (simp add: adjustColorBrightness_def canonicalHex_iff)

theorem adjust_invalid_unchanged_witness:
  "\<not> canonicalHex ''#12345'' \<and> adjustColorBrightness ''#12345'' 70 = ''#12345''"
proof -
  have h: "\<not> canonicalHex ''#12345''"
    by (simp add: canonicalHex_def hexRegexTest_def isHexDigit_def hexDigitValue_def)
  show ?thesis using h adjust_invalid_unchanged [OF h, of 70] by simp
qed

subsection \<open>Serialization of a channel\<close>

lemma hexDigits_small: "n < 16 \<Longrightarrow> hexDigits n = [hexChar n]"
  by (simp add: hexDigits.simps)

lemma hexDigits_byte:
  assumes "16 \<le> n" and "n < 256"
  shows "hexDigits n = [hexChar (n div 16), hexChar (n mod 16)]"
proof -
  have "n div 16 < 16" using assms(2) by simp
  then have "hexDigits (n div 16) = [hexChar (n div 16)]" by (rule hexDigits_small)
  moreover have "hexDigits n = hexDigits (n div 16) @ [hexChar (n mod 16)]"
    using assms(1) by (subst hexDigits.simps) simp
  ultimately show ?thesis by simp
qed

lemma hexChar_0: "hexChar 0 = CHR ''0''"
  by (simp add: hexChar_def)

lemma toString16_byte:
  assumes "0 \<le> k" and "k \<le> 255"
  shows "(let hex = toString16 k in if length hex = 1 then CHR ''0'' # hex else hex)
         = twoDigitHex (nat k)"
proof (cases "nat k < 16")
  case True
  then have "hexDigits (nat k) = [hexChar (nat k)]" by (rule hexDigits_small)
  moreover have "nat k div 16 = 0" "nat k mod 16 = nat k" using True by simp_all
  ultimately show ?thesis using assms
    by (simp add: toString16_def twoDigitHex_def hexChar_0)
next
  case False
  then have "16 \<le> nat k" "nat k < 256" using assms by simp_all
  then have "hexDigits (nat k) = [hexChar (nat k div 16), hexChar (nat k mod 16)]"
    by (rule hexDigits_byte)
  then show ?thesis using assms
    by (simp add: toString16_def twoDigitHex_def)
qed

lemma round_unit_255:
  fixes c :: real
  assumes "0 \<le> c" and "c \<le> 1"
  shows "0 \<le> round (c * 255)" and "round (c * 255) \<le> 255"
proof -
  have "round (0::real) \<le> round (c * 255)" using assms by (intro round_mono) simp
  then show "0 \<le> round (c * 255)" by simp
  have "round (c * 255) \<le> round (255::real)" using assms by (intro round_mono) simp
  then show "round (c * 255) \<le> 255" by simp
qed

lemma toHex_unit:
  assumes "0 \<le> c" and "c \<le> 1"
  shows "toHex c = twoDigitHex (nat (round (c * 255)))"
  unfolding toHex_def using toString16_byte [OF round_unit_255 [OF assms]] .

subsection \<open>Achromatic colors\<close>

lemma rgbToHsl_gray: "rgbToHsl v v v = (0, 0, v)"
  by (simp add: rgbToHsl_def)

lemma hslToRgb_gray: "hslToRgb h 0 l = (l, l, l)"
  by (simp add: hslToRgb_def)

text \<open>
  C7. For a valid color whose three channels are equal and a shade \<open>s\<close> from 0 to 100,
  the result is \<open>#\<close> followed by three times the same two lowercase hex digits, those
  of \<open>round (s / 100 * 255)\<close>, a value of at most 255.
\<close>

theorem adjust_achromatic:
  assumes valid: "canonicalHex c"
    and gray: "hexToRgb (cleanHexOf c) = (v, v, v)"
    and lo: "0 \<le> s" and hi: "s \<le> 100"
  shows "adjustColorBrightness c s =
           CHR ''#'' # twoDigitHex (nat (round (s / 100 * 255)))
             @ twoDigitHex (nat (round (s / 100 * 255)))
             @ twoDigitHex (nat (round (s / 100 * 255)))
         \<and> nat (round (s / 100 * 255)) \<le> 255"
proof -
  have l: "0 \<le> s / 100" "s / 100 \<le> 1" using lo hi by simp_all
  have hex: "toHex (s / 100) = twoDigitHex (nat (round (s / 100 * 255)))"
    using l by (rule toHex_unit)
  have "adjustColorBrightness c s
        = CHR ''#'' # toHex (s / 100) @ toHex (s / 100) @ toHex (s / 100)"
    using valid gray
    by (simp add: adjustColorBrightness_def canonicalHex_iff rgbToHsl_gray hslToRgb_gray)
  moreover have "nat (round (s / 100 * 255)) \<le> 255"
    using round_unit_255 [OF l] by simp
  ultimately show ?thesis using hex by simp
qed

theorem adjust_achromatic_witness:
  "canonicalHex ''#808080''
   \<and> hexToRgb (cleanHexOf ''#808080'') = (128 / 255, 128 / 255, 128 / 255)
   \<and> adjustColorBrightness ''#808080'' 70 = ''#b3b3b3''"
proof -
  have valid: "canonicalHex ''#808080''"
    by (simp add: canonicalHex_def hexRegexTest_def isHexDigit_def hexDigitValue_def)
  have gray: "hexToRgb (cleanHexOf ''#808080'') = (128 / 255, 128 / 255, 128 / 255)"
    by (simp add: hexToRgb_def cleanHexOf_def parseInt16_def substr_def hexDigitValue_def)
  have r: "round (70 / 100 * 255 :: real) = 179"
    by (simp add: round_def)
  have "twoDigitHex 179 = ''b3''"
    by (simp add: twoDigitHex_def hexChar_def)
  then show ?thesis
    using valid gray adjust_achromatic [OF valid gray, of 70] r by simp
qed

subsection \<open>Hue, saturation and the replaced lightness\<close>

lemma hexDigitValue_bound: "hexDigitValue c = Some d \<Longrightarrow> d < 16"
  by (auto simp: hexDigitValue_def Let_def split: if_splits)

lemma parseInt16_pair:
  assumes "isHexDigit a" and "isHexDigit b"
  shows "parseInt16 [a, b] \<le> 255"
proof -
  obtain x y where x: "hexDigitValue a = Some x" and y: "hexDigitValue b = Some y"
    using assms by (auto simp: isHexDigit_def)
  have "x < 16" "y < 16" using x y by (auto dest: hexDigitValue_bound)
  then show ?thesis using x y by (simp add: parseInt16_def)
qed

lemma hexToRgb_range:
  assumes "hexRegexTest s" and "hexToRgb s = (r, g, b)"
  shows "0 \<le> r \<and> r \<le> 1 \<and> 0 \<le> g \<and> g \<le> 1 \<and> 0 \<le> b \<and> b \<le> 1"
proof -
  obtain c0 c1 c2 c3 c4 c5 where s: "s = [c0, c1, c2, c3, c4, c5]"
    using assms(1) by (auto simp: hexRegexTest_def length_Suc_conv eval_nat_numeral)
  have d: "isHexDigit c0" "isHexDigit c1" "isHexDigit c2" "isHexDigit c3" "isHexDigit c4" "isHexDigit c5"
    using assms(1) s by (simp_all add: hexRegexTest_def)
  have "parseInt16 (substr s 0 2) \<le> 255" "parseInt16 (substr s 2 2) \<le> 255" "parseInt16 (substr s 4 2) \<le> 255"
    using d parseInt16_pair by (simp_all add: s substr_def)
  then show ?thesis using assms(2) by (auto simp: hexToRgb_def)
qed

lemma hueToRgb_affine: "hueToRgb p q t = p + (q - p) * hueToRgb 0 1 t"
  by (simp add: hueToRgb_def Let_def)

lemma unit_hue_1: "0 \<le> h \<Longrightarrow> h < 1 / 6 \<Longrightarrow>
  hueToRgb 0 1 (h + 1 / 3) = 1 \<and> hueToRgb 0 1 h = 6 * h \<and> hueToRgb 0 1 (h - 1 / 3) = 0"
  by (simp add: hueToRgb_def Let_def)

lemma unit_hue_2: "1 / 6 \<le> h \<Longrightarrow> h < 1 / 3 \<Longrightarrow>
  hueToRgb 0 1 (h + 1 / 3) = 2 - 6 * h \<and> hueToRgb 0 1 h = 1 \<and> hueToRgb 0 1 (h - 1 / 3) = 0"
  by (simp add: hueToRgb_def Let_def)

lemma unit_hue_3: "1 / 3 \<le> h \<Longrightarrow> h < 1 / 2 \<Longrightarrow>
  hueToRgb 0 1 (h + 1 / 3) = 0 \<and> hueToRgb 0 1 h = 1 \<and> hueToRgb 0 1 (h - 1 / 3) = 6 * h - 2"
  by (simp add: hueToRgb_def Let_def)

lemma unit_hue_4: "1 / 2 \<le> h \<Longrightarrow> h < 2 / 3 \<Longrightarrow>
  hueToRgb 0 1 (h + 1 / 3) = 0 \<and> hueToRgb 0 1 h = 4 - 6 * h \<and> hueToRgb 0 1 (h - 1 / 3) = 1"
  by (simp add: hueToRgb_def Let_def)

lemma unit_hue_5: "2 / 3 \<le> h \<Longrightarrow> h < 5 / 6 \<Longrightarrow>
  hueToRgb 0 1 (h + 1 / 3) = 6 * h - 4 \<and> hueToRgb 0 1 h = 0 \<and> hueToRgb 0 1 (h - 1 / 3) = 1"
  by (auto simp add: hueToRgb_def Let_def)

lemma unit_hue_6: "5 / 6 \<le> h \<Longrightarrow> h < 1 \<Longrightarrow>
  hueToRgb 0 1 (h + 1 / 3) = 1 \<and> hueToRgb 0 1 h = 0 \<and> hueToRgb 0 1 (h - 1 / 3) = 6 - 6 * h"
  by (simp add: hueToRgb_def Let_def)


lemma max_affine: "0 < d \<Longrightarrow> max (p + d * x) (p + d * y) = p + d * max x (y::real)"
  by (simp add: max_def)

lemma min_affine: "0 < d \<Longrightarrow> min (p + d * x) (p + d * y) = p + d * min x (y::real)"
  by (simp add: min_def)

lemma rgbToHsl_affine:
  assumes d: "0 < d" and mx: "max (max a b) c = 1" and mn: "min (min a b) c = 0"
  shows "rgbToHsl (p + d * a) (p + d * b) (p + d * c) =
           (fst (rgbToHsl a b c),
            (if p + d / 2 > 1 / 2 then d / (2 - 2 * p - d) else d / (2 * p + d)),
            p + d / 2)"
proof -
  have mx': "max (max (p + d * a) (p + d * b)) (p + d * c) = p + d"
    using d mx by (simp add: max_affine)
  have mn': "min (min (p + d * a) (p + d * b)) (p + d * c) = p"
    using d mn by (simp add: min_affine)
  have e: "p + d = p + d * x \<longleftrightarrow> 1 = x" for x using d by simp
  have q: "(p + d * x - (p + d * y)) / d = x - y" for x y using d by (simp add: field_simps)
  have lt: "p + d * x < p + d * y \<longleftrightarrow> x < y" for x y using d by simp
  have l: "(p + d + p) / 2 = p + d / 2" by (simp add: field_simps)
  have L: "rgbToHsl (p + d * a) (p + d * b) (p + d * c) =
     ((if 1 = a then (b - c) + (if b < c then 6 else 0)
       else if 1 = b then (c - a) + 2
       else if 1 = c then (a - b) + 4 else 0) / 6,
      (if p + d / 2 > 1 / 2 then d / (2 - (p + d) - p) else d / (p + d + p)),
      p + d / 2)"
    unfolding rgbToHsl_def Let_def mx' mn' using d by (simp add: e lt l diff_divide_distrib)
  have R: "fst (rgbToHsl a b c) =
     (if 1 = a then (b - c) + (if b < c then 6 else 0)
       else if 1 = b then (c - a) + 2
       else if 1 = c then (a - b) + 4 else 0) / 6"
    unfolding rgbToHsl_def Let_def mx mn by simp
  have "2 - (p + d) - p = 2 - 2 * p - d" "p + d + p = 2 * p + d" by simp_all
  then show ?thesis using L R by simp
qed

lemma unit_triple:
  assumes "0 \<le> h" and "h < 1"
  shows "max (max (hueToRgb 0 1 (h + 1 / 3)) (hueToRgb 0 1 h)) (hueToRgb 0 1 (h - 1 / 3)) = 1
         \<and> min (min (hueToRgb 0 1 (h + 1 / 3)) (hueToRgb 0 1 h)) (hueToRgb 0 1 (h - 1 / 3)) = 0
         \<and> fst (rgbToHsl (hueToRgb 0 1 (h + 1 / 3)) (hueToRgb 0 1 h) (hueToRgb 0 1 (h - 1 / 3))) = h"
proof -
  consider "h < 1 / 6" | "1 / 6 \<le> h" "h < 1 / 3" | "1 / 3 \<le> h" "h < 1 / 2"
    | "1 / 2 \<le> h" "h < 2 / 3" | "2 / 3 \<le> h" "h < 5 / 6" | "5 / 6 \<le> h"
    by linarith
  then show ?thesis
  proof cases
    case 1
    then show ?thesis using unit_hue_1 [of h] assms
      by (simp add: rgbToHsl_def Let_def)
  next
    case 2
    then show ?thesis using unit_hue_2 [of h]
      by (simp add: rgbToHsl_def Let_def)
  next
    case 3
    then show ?thesis using unit_hue_3 [of h]
      by (simp add: rgbToHsl_def Let_def)
  next
    case 4
    then show ?thesis using unit_hue_4 [of h]
      by (simp add: rgbToHsl_def Let_def)
  next
    case 5
    then show ?thesis using unit_hue_5 [of h]
      by (simp add: rgbToHsl_def Let_def)
  next
    case 6
    then show ?thesis using unit_hue_6 [of h] assms
      by (simp add: rgbToHsl_def Let_def)
  qed
qed


lemma hslToRgb_affine:
  assumes "s \<noteq> 0"
    and "q = (if l < 1 / 2 then l * (1 + s) else l + s - l * s)"
    and "p = 2 * l - q"
  shows "hslToRgb h s l =
           (p + (q - p) * hueToRgb 0 1 (h + 1 / 3),
            p + (q - p) * hueToRgb 0 1 h,
            p + (q - p) * hueToRgb 0 1 (h - 1 / 3))"
proof -
  have "hslToRgb h s l = (hueToRgb p q (h + 1 / 3), hueToRgb p q h, hueToRgb p q (h - 1 / 3))"
    using assms by (simp add: hslToRgb_def Let_def)
  then show ?thesis
    using hueToRgb_affine [of p q "h + 1 / 3"] hueToRgb_affine [of p q h]
      hueToRgb_affine [of p q "h - 1 / 3"] by simp
qed

lemma hsl_roundtrip:
  assumes h: "0 \<le> h" "h < 1" and s: "0 < s" and l: "0 < l" "l < 1"
    and rgb: "hslToRgb h s l = (r, g, b)"
  shows "rgbToHsl r g b = (h, s, l)"
proof -
  define q where "q = (if l < 1 / 2 then l * (1 + s) else l + s - l * s)"
  define p where "p = 2 * l - q"
  define d where "d = q - p"
  have d_eq: "d = (if l < 1 / 2 then 2 * l * s else 2 * s * (1 - l))"
    by (simp add: d_def p_def q_def algebra_simps)
  have d_pos: "0 < d"
    using s l by (simp add: d_eq)
  have mid: "p + d / 2 = l"
    by (simp add: d_def p_def field_simps)
  have ch: "(r, g, b) = (p + d * hueToRgb 0 1 (h + 1 / 3), p + d * hueToRgb 0 1 h,
              p + d * hueToRgb 0 1 (h - 1 / 3))"
    using hslToRgb_affine [of s q l p h] s rgb by (simp add: q_def p_def d_def)
  have u: "max (max (hueToRgb 0 1 (h + 1 / 3)) (hueToRgb 0 1 h)) (hueToRgb 0 1 (h - 1 / 3)) = 1"
    "min (min (hueToRgb 0 1 (h + 1 / 3)) (hueToRgb 0 1 h)) (hueToRgb 0 1 (h - 1 / 3)) = 0"
    "fst (rgbToHsl (hueToRgb 0 1 (h + 1 / 3)) (hueToRgb 0 1 h) (hueToRgb 0 1 (h - 1 / 3))) = h"
    using unit_triple [OF h] by simp_all
  have sat': "(if l > 1 / 2 then d / (2 - 2 * l) else d / (2 * l)) = s"
  proof (cases "l < 1 / 2")
    case True
    then show ?thesis using l by (simp add: d_eq)
  next
    case False
    show ?thesis
    proof (cases "l = 1 / 2")
      case True
      show ?thesis unfolding d_eq True by simp
    next
      case False
      then have "1 / 2 < l" using \<open>\<not> l < 1 / 2\<close> by simp
      moreover have "2 * s * (1 - l) / (2 - 2 * l) = s" using l by (simp add: field_simps)
      ultimately show ?thesis by (simp add: d_eq)
    qed
  qed
  have a: "2 * p + d = 2 * l" "2 - 2 * p - d = 2 - 2 * l" using mid by simp_all
  have sat: "(if p + d / 2 > 1 / 2 then d / (2 - 2 * p - d) else d / (2 * p + d)) = s"
    unfolding mid a by (rule sat')
  have "rgbToHsl r g b = (h, s, l)"
    using rgbToHsl_affine [OF d_pos u(1) u(2), of p] ch u(3) sat mid by simp
  then show ?thesis .
qed


lemma ratio_bounds:
  fixes x y d :: real
  assumes "0 < d" and "x - y \<le> d" and "y - x \<le> d"
  shows "- 1 \<le> (x - y) / d" and "(x - y) / d \<le> 1"
  using assms by (simp_all add: field_simps)

lemma ratio_sign:
  fixes x y d :: real
  assumes "0 < d"
  shows "x < y \<Longrightarrow> (x - y) / d < 0" and "\<not> x < y \<Longrightarrow> 0 \<le> (x - y) / d"
  using assms by (simp_all add: field_simps)

lemma rgbToHsl_range:
  assumes r: "0 \<le> r" "r \<le> 1" and g: "0 \<le> g" "g \<le> 1" and b: "0 \<le> b" "b \<le> 1"
    and hsl: "rgbToHsl r g b = (h, s, l)"
  shows "0 \<le> h \<and> h < 1 \<and> 0 \<le> s \<and> s \<le> 1 \<and> (s = 0 \<longrightarrow> h = 0)"
proof -
  define mx where "mx = max (max r g) b"
  define mn where "mn = min (min r g) b"
  define d where "d = mx - mn"
  have bounds: "mn \<le> r" "r \<le> mx" "mn \<le> g" "g \<le> mx" "mn \<le> b" "b \<le> mx" "0 \<le> mn" "mx \<le> 1"
    using r g b by (simp_all add: mx_def mn_def)
  show ?thesis
  proof (cases "mx = mn")
    case True
    then show ?thesis using hsl by (simp add: rgbToHsl_def mx_def mn_def)
  next
    case False
    then have d_pos: "0 < d" using bounds by (simp add: d_def)
    define H where "H = (if mx = r then (g - b) / d + (if g < b then 6 else 0)
                    else if mx = g then (b - r) / d + 2
                    else if mx = b then (r - g) / d + 4
                    else 0) / 6"
    define S where "S = (if (mx + mn) / 2 > 1 / 2 then d / (2 - mx - mn) else d / (mx + mn))"
    have "rgbToHsl r g b = (H, S, (mx + mn) / 2)"
      unfolding rgbToHsl_def Let_def mx_def [symmetric] mn_def [symmetric] d_def [symmetric]
        H_def S_def
      using False by simp
    then have "h = H" "s = S" using hsl by simp_all
    then have h_eq: "h = (if mx = r then (g - b) / d + (if g < b then 6 else 0)
                    else if mx = g then (b - r) / d + 2
                    else if mx = b then (r - g) / d + 4
                    else 0) / 6"
      and s_eq: "s = (if (mx + mn) / 2 > 1 / 2 then d / (2 - mx - mn) else d / (mx + mn))"
      by (simp_all only: H_def S_def)
    have gb: "- 1 \<le> (g - b) / d" "(g - b) / d \<le> 1"
      using ratio_bounds [OF d_pos, of g b] bounds by (simp_all add: d_def)
    have br: "- 1 \<le> (b - r) / d" "(b - r) / d \<le> 1"
      using ratio_bounds [OF d_pos, of b r] bounds by (simp_all add: d_def)
    have rg: "- 1 \<le> (r - g) / d" "(r - g) / d \<le> 1"
      using ratio_bounds [OF d_pos, of r g] bounds by (simp_all add: d_def)
    have hr: "0 \<le> h \<and> h < 1"
      using gb br rg ratio_sign [OF d_pos, of g b] by (auto simp: h_eq)
    have sr: "0 < s \<and> s \<le> 1"
    proof (cases "(mx + mn) / 2 > 1 / 2")
      case True
      have "0 < 2 - mx - mn" using bounds d_pos by (simp add: d_def)
      moreover have "d \<le> 2 - mx - mn" using bounds by (simp add: d_def)
      ultimately show ?thesis using True d_pos by (simp add: s_eq)
    next
      case False
      have "0 < mx + mn" using bounds d_pos by (simp add: d_def)
      moreover have "d \<le> mx + mn" using bounds by (simp add: d_def)
      ultimately show ?thesis using False d_pos by (simp add: s_eq)
    qed
    show ?thesis using hr sr by simp
  qed
qed

lemma hueToRgb_unit_range:
  assumes "- 1 \<le> t" and "t \<le> 2"
  shows "0 \<le> hueToRgb 0 1 t \<and> hueToRgb 0 1 t \<le> 1"
  using assms by (auto simp: hueToRgb_def Let_def)

lemma affine_range:
  fixes p d u :: real
  assumes "0 \<le> d" and "0 \<le> u" and "u \<le> 1"
  shows "p \<le> p + d * u" and "p + d * u \<le> p + d"
proof -
  show "p \<le> p + d * u" using assms by simp
  have "d * u \<le> d * 1" using assms by (intro mult_left_mono) simp_all
  then show "p + d * u \<le> p + d" by simp
qed


lemma max_affine0: "0 \<le> d \<Longrightarrow> max (p + d * x) (p + d * y) = p + d * max x (y::real)"
proof (cases "d = 0")
  case True
  then show ?thesis by simp
next
  case False
  assume "0 \<le> d"
  then have "0 < d" using False by simp
  then show ?thesis by (rule max_affine)
qed

lemma min_affine0: "0 \<le> d \<Longrightarrow> min (p + d * x) (p + d * y) = p + d * min x (y::real)"
proof (cases "d = 0")
  case True
  then show ?thesis by simp
next
  case False
  assume "0 \<le> d"
  then have "0 < d" using False by simp
  then show ?thesis by (rule min_affine)
qed

lemma rgbToHsl_lightness:
  "snd (snd (rgbToHsl r g b)) = (max (max r g) b + min (min r g) b) / 2"
  by (simp add: rgbToHsl_def Let_def)

lemma hslToRgb_props:
  assumes h: "0 \<le> h" "h < 1" and s: "0 \<le> s" "s \<le> 1" and l: "0 \<le> l" "l \<le> 1"
    and rgb: "hslToRgb h s l = (r, g, b)"
  shows "0 \<le> r \<and> r \<le> 1 \<and> 0 \<le> g \<and> g \<le> 1 \<and> 0 \<le> b \<and> b \<le> 1"
    and "snd (snd (rgbToHsl r g b)) = l"
proof -
  have both: "(0 \<le> r \<and> r \<le> 1 \<and> 0 \<le> g \<and> g \<le> 1 \<and> 0 \<le> b \<and> b \<le> 1)
              \<and> snd (snd (rgbToHsl r g b)) = l"
  proof (cases "s = 0")
    case True
    then have "r = l" "g = l" "b = l" using rgb by (simp_all add: hslToRgb_def)
    then show ?thesis using l by (simp add: rgbToHsl_gray)
  next
    case False
    define q where "q = (if l < 1 / 2 then l * (1 + s) else l + s - l * s)"
    define p where "p = 2 * l - q"
    define d where "d = q - p"
    define u1 where "u1 = hueToRgb 0 1 (h + 1 / 3)"
    define u2 where "u2 = hueToRgb 0 1 h"
    define u3 where "u3 = hueToRgb 0 1 (h - 1 / 3)"
    have ls: "0 \<le> l * s" "l * s \<le> l"
      using s l by (simp_all add: mult_left_le)
    have sl: "0 \<le> s * (1 - l)" "s * (1 - l) \<le> 1 - l"
      using s l by (simp_all add: mult_left_le_one_le)
    have d_eq: "d = (if l < 1 / 2 then 2 * (l * s) else 2 * (s * (1 - l)))"
      by (simp add: d_def p_def q_def algebra_simps)
    have p_eq: "p = (if l < 1 / 2 then l - l * s else l - s * (1 - l))"
      by (simp add: p_def q_def algebra_simps)
    have d0: "0 \<le> d" using ls sl by (simp add: d_eq)
    have p0: "0 \<le> p" using ls sl by (simp add: p_eq)
    have q1: "p + d \<le> 1"
    proof -
      have "p + d = q" by (simp add: d_def)
      also have "q = (if l < 1 / 2 then l + l * s else l + s * (1 - l))"
        by (simp add: q_def algebra_simps)
      also have "\<dots> \<le> 1" using ls sl by simp
      finally show ?thesis .
    qed
    have mid: "p + d / 2 = l" by (simp add: d_def p_def field_simps)
    have ch: "r = p + d * u1" "g = p + d * u2" "b = p + d * u3"
      using hslToRgb_affine [of s q l p h] False rgb
      by (simp_all add: q_def p_def d_def u1_def u2_def u3_def)
    have ur: "0 \<le> u1" "u1 \<le> 1" "0 \<le> u2" "u2 \<le> 1" "0 \<le> u3" "u3 \<le> 1"
      using hueToRgb_unit_range [of "h + 1 / 3"] hueToRgb_unit_range [of h]
        hueToRgb_unit_range [of "h - 1 / 3"] h
      by (simp_all add: u1_def u2_def u3_def)
    have rng: "p \<le> r" "r \<le> p + d" "p \<le> g" "g \<le> p + d" "p \<le> b" "b \<le> p + d"
      using affine_range [OF d0, of u1 p] affine_range [OF d0, of u2 p]
        affine_range [OF d0, of u3 p] ur by (simp_all add: ch)
    have um: "max (max u1 u2) u3 = 1" "min (min u1 u2) u3 = 0"
      using unit_triple [OF h] by (simp_all add: u1_def u2_def u3_def)
    have "max (max r g) b = p + d * max (max u1 u2) u3"
      by (simp add: ch max_affine0 [OF d0])
    moreover have "min (min r g) b = p + d * min (min u1 u2) u3"
      by (simp add: ch min_affine0 [OF d0])
    ultimately have "(max (max r g) b + min (min r g) b) / 2 = l"
      using um mid by (simp add: field_simps)
    then have "snd (snd (rgbToHsl r g b)) = l" by (simp only: rgbToHsl_lightness)
    moreover have "0 \<le> r \<and> r \<le> 1 \<and> 0 \<le> g \<and> g \<le> 1 \<and> 0 \<le> b \<and> b \<le> 1"
      using rng p0 q1 by linarith
    ultimately show ?thesis by simp
  qed
  show "0 \<le> r \<and> r \<le> 1 \<and> 0 \<le> g \<and> g \<le> 1 \<and> 0 \<le> b \<and> b \<le> 1" using both by simp
  show "snd (snd (rgbToHsl r g b)) = l" using both by simp
qed

subsection \<open>Levels written by the program\<close>

lemma hexDigitValue_hexChar:
  assumes "d < 16"
  shows "hexDigitValue (hexChar d) = Some d"
proof -
  have "d = 0 \<or> d = 1 \<or> d = 2 \<or> d = 3 \<or> d = 4 \<or> d = 5 \<or> d = 6 \<or> d = 7 \<or> d = 8
        \<or> d = 9 \<or> d = 10 \<or> d = 11 \<or> d = 12 \<or> d = 13 \<or> d = 14 \<or> d = 15"
    using assms by arith
  then show ?thesis
    by (elim disjE) (simp_all add: hexChar_def hexDigitValue_def)
qed

lemma parseInt16_twoDigitHex: "k < 256 \<Longrightarrow> parseInt16 (twoDigitHex k) = k"
proof -
  assume k: "k < 256"
  then have "k div 16 < 16" "k mod 16 < 16" by simp_all
  then show ?thesis
    by (simp add: parseInt16_def twoDigitHex_def hexDigitValue_hexChar)
qed

lemma hexRegexTest_levels:
  assumes "kr < 256" "kg < 256" "kb < 256"
  shows "hexRegexTest (twoDigitHex kr @ twoDigitHex kg @ twoDigitHex kb)"
proof -
  have "isHexDigit (hexChar (k div 16)) \<and> isHexDigit (hexChar (k mod 16))" if "k < 256" for k
  proof -
    have "k div 16 < 16" "k mod 16 < 16" using that by simp_all
    then show ?thesis by (simp add: isHexDigit_def hexDigitValue_hexChar)
  qed
  then show ?thesis using assms by (simp add: hexRegexTest_def twoDigitHex_def)
qed

lemma levelsOf_print:
  assumes "kr < 256" "kg < 256" "kb < 256"
  shows "levelsOf (CHR ''#'' # twoDigitHex kr @ twoDigitHex kg @ twoDigitHex kb) = Some (kr, kg, kb)"
proof -
  let ?cs = "twoDigitHex kr @ twoDigitHex kg @ twoDigitHex kb"
  have len: "length (twoDigitHex k) = 2" for k by (simp add: twoDigitHex_def)
  have "substr ?cs 0 2 = twoDigitHex kr" "substr ?cs 2 2 = twoDigitHex kg"
    "substr ?cs 4 2 = twoDigitHex kb"
    by (simp_all add: substr_def twoDigitHex_def)
  then have "parseInt16 (substr ?cs 0 2) = kr" "parseInt16 (substr ?cs 2 2) = kg"
    "parseInt16 (substr ?cs 4 2) = kb"
    using assms by (simp_all add: parseInt16_twoDigitHex)
  then show ?thesis
    using hexRegexTest_levels [OF assms] by (simp add: levelsOf_def Let_def)
qed

lemma levelsOf_Some:
  assumes "levelsOf out = Some (kr, kg, kb)"
  shows "out = CHR ''#'' # twoDigitHex kr @ twoDigitHex kg @ twoDigitHex kb"
    and "hexToRgb (cleanHexOf out) = (real kr / 255, real kg / 255, real kb / 255)"
proof -
  obtain c cs where out: "out = c # cs"
    using assms by (cases out) (simp_all add: levelsOf_def)
  define KR where "KR = parseInt16 (substr cs 0 2)"
  define KG where "KG = parseInt16 (substr cs 2 2)"
  define KB where "KB = parseInt16 (substr cs 4 2)"
  define ok where "ok \<longleftrightarrow> c = CHR ''#'' \<and> hexRegexTest cs
                     \<and> cs = twoDigitHex KR @ twoDigitHex KG @ twoDigitHex KB"
  have lv: "levelsOf out = (if ok then Some (KR, KG, KB) else None)"
    by (simp add: out levelsOf_def Let_def KR_def KG_def KB_def ok_def)
  have ok: ok
  proof (rule ccontr)
    assume "\<not> ok"
    then show False using lv assms by simp
  qed
  then have k: "KR = kr" "KG = kg" "KB = kb" using lv assms by simp_all
  have c: "c = CHR ''#''" and cs: "cs = twoDigitHex kr @ twoDigitHex kg @ twoDigitHex kb"
    using ok unfolding ok_def k by simp_all
  show "out = CHR ''#'' # twoDigitHex kr @ twoDigitHex kg @ twoDigitHex kb"
    unfolding out c using cs by simp
  have "hexToRgb (cleanHexOf out) = (real KR / 255, real KG / 255, real KB / 255)"
    unfolding out c by (simp add: cleanHexOf_def hexToRgb_def KR_def KG_def KB_def)
  then show "hexToRgb (cleanHexOf out) = (real kr / 255, real kg / 255, real kb / 255)"
    unfolding k .
qed

lemma admissible_zero: "admissibleLevel 0 k \<Longrightarrow> k = 0"
  by (simp add: admissibleLevel_def roundingSlack_def)

lemma admissible_one:
  assumes "admissibleLevel 1 k"
  shows "k = 255"
proof -
  have "\<bar>real k - 255\<bar> \<le> 1 / 2 + 1 / 1000000"
    using assms by (simp add: admissibleLevel_def roundingSlack_def)
  then have "real k - 255 \<le> 1 / 2 + 1 / 1000000 \<and> - (real k - 255) \<le> 1 / 2 + 1 / 1000000"
    unfolding abs_le_iff .
  then have "real k < 256" "254 < real k" by linarith+
  then have "k < 256" "254 < k" by simp_all
  then show ?thesis by simp
qed

lemma admissible_round:
  assumes "0 \<le> x" "x \<le> 1"
  shows "admissibleLevel x (nat (round (x * 255)))"
proof -
  have "0 \<le> round (x * 255)" using round_unit_255 [OF assms] by simp
  then have "real (nat (round (x * 255))) = real_of_int (round (x * 255))" by simp
  moreover have "\<bar>real_of_int (round (x * 255)) - x * 255\<bar> \<le> 1 / 2"
    by (rule of_int_round_abs_le)
  ultimately show ?thesis by (simp add: admissibleLevel_def roundingSlack_def)
qed

lemma admissible_close:
  assumes "admissibleLevel x k"
  shows "\<bar>real k / 255 - x\<bar> \<le> channelTolerance"
proof -
  define T where "T = 1 / 2 + roundingSlack"
  have "\<bar>real k - x * 255\<bar> \<le> T"
    using assms by (simp add: admissibleLevel_def T_def)
  then have "real k - x * 255 \<le> T \<and> - (real k - x * 255) \<le> T"
    unfolding abs_le_iff .
  then have "real k / 255 - x \<le> T / 255 \<and> - (real k / 255 - x) \<le> T / 255"
    by (simp add: field_simps)
  then show ?thesis
    unfolding channelTolerance_def T_def [symmetric] abs_le_iff .
qed

lemma hslToRgb_black: "hslToRgb h s 0 = (0, 0, 0)"
  by (simp add: hslToRgb_def hueToRgb_def Let_def)

lemma hslToRgb_white: "hslToRgb h s 1 = (1, 1, 1)"
  by (simp add: hslToRgb_def hueToRgb_def Let_def)

lemma max_close:
  fixes a b a' b' e :: real
  assumes "\<bar>a - a'\<bar> \<le> e" "\<bar>b - b'\<bar> \<le> e"
  shows "\<bar>max a b - max a' b'\<bar> \<le> e"
proof -
  have "a - a' \<le> e" "a' - a \<le> e" "b - b' \<le> e" "b' - b \<le> e"
    using assms by (simp_all add: abs_le_iff)
  then show ?thesis by (simp add: abs_le_iff max_def)
qed

lemma min_close:
  fixes a b a' b' e :: real
  assumes "\<bar>a - a'\<bar> \<le> e" "\<bar>b - b'\<bar> \<le> e"
  shows "\<bar>min a b - min a' b'\<bar> \<le> e"
proof -
  have "a - a' \<le> e" "a' - a \<le> e" "b - b' \<le> e" "b' - b \<le> e"
    using assms by (simp_all add: abs_le_iff)
  then show ?thesis by (simp add: abs_le_iff min_def)
qed

lemma lightness_close:
  fixes e :: real
  assumes "\<bar>r - r'\<bar> \<le> e" "\<bar>g - g'\<bar> \<le> e" "\<bar>b - b'\<bar> \<le> e"
  shows "\<bar>snd (snd (rgbToHsl r g b)) - snd (snd (rgbToHsl r' g' b'))\<bar> \<le> e"
proof -
  define M where "M = max (max r g) b"
  define M' where "M' = max (max r' g') b'"
  define N where "N = min (min r g) b"
  define N' where "N' = min (min r' g') b'"
  have mx: "\<bar>M - M'\<bar> \<le> e"
    unfolding M_def M'_def using max_close [OF max_close [OF assms(1) assms(2)] assms(3)] .
  have mn: "\<bar>N - N'\<bar> \<le> e"
    unfolding N_def N'_def using min_close [OF min_close [OF assms(1) assms(2)] assms(3)] .
  have "M - M' \<le> e" "M' - M \<le> e" "N - N' \<le> e" "N' - N \<le> e"
    using mx mn by (simp_all add: abs_le_iff)
  then have "\<bar>(M + N) / 2 - (M' + N') / 2\<bar> \<le> e"
    by (simp add: abs_le_iff field_simps)
  then show ?thesis
    by (simp only: rgbToHsl_lightness M_def M'_def N_def N'_def)
qed

text \<open>
  C6, as stated, fails at shade 0: pure green becomes black, whose hue and saturation
  are 0, while those of green are \<open>1/3\<close> and 1.
\<close>

theorem shade_zero_counterexample:
  "adjustColorBrightness ''#00ff00'' 0 = ''#000000''
   \<and> adjustsTo ''#00ff00'' 0 ''#000000''
   \<and> hslOfHex ''#00ff00'' = (1 / 3, 1, 1 / 2)
   \<and> hslOfHex ''#000000'' = (0, 0, 0)"
proof -
  have lv: "levelsOf ''#000000'' = Some (0, 0, 0)"
    by (simp add: levelsOf_def Let_def hexRegexTest_def isHexDigit_def hexDigitValue_def
        parseInt16_def substr_def twoDigitHex_def hexChar_def)
  have "adjustsTo ''#00ff00'' 0 ''#000000''"
    by (simp add: adjustsTo_def cleanHexOf_def hexRegexTest_def isHexDigit_def
        hexDigitValue_def hexToRgb_def parseInt16_def substr_def rgbToHsl_def hslToRgb_def
        hueToRgb_def Let_def lv admissibleLevel_def roundingSlack_def)
  moreover have "adjustColorBrightness ''#00ff00'' 0 = ''#000000''
      \<and> hslOfHex ''#00ff00'' = (1 / 3, 1, 1 / 2) \<and> hslOfHex ''#000000'' = (0, 0, 0)"
    by (simp add: adjustColorBrightness_def hslOfHex_def cleanHexOf_def hexRegexTest_def
        isHexDigit_def hexDigitValue_def hexToRgb_def parseInt16_def substr_def rgbToHsl_def
        hslToRgb_def hueToRgb_def toHex_def toString16_def hexDigits_small hexChar_def
        Let_def)
  ultimately show ?thesis by simp
qed

text \<open>What the exact arithmetic returns is among the strings the program can return.\<close>

lemma exact_output_admissible:
  assumes valid: "canonicalHex c" and lo: "0 \<le> s" and hi: "s \<le> 100"
  shows "adjustsTo c s (adjustColorBrightness c s)"
proof -
  have test: "hexRegexTest (cleanHexOf c)" using valid by (simp add: canonicalHex_iff)
  obtain r g b where ch: "hexToRgb (cleanHexOf c) = (r, g, b)"
    by (cases "hexToRgb (cleanHexOf c)") auto
  obtain h sat l0 where hsl: "rgbToHsl r g b = (h, sat, l0)"
    by (cases "rgbToHsl r g b") auto
  obtain nr ng nb where rgb: "hslToRgb h sat (s / 100) = (nr, ng, nb)"
    by (cases "hslToRgb h sat (s / 100)") auto
  have unit: "0 \<le> r \<and> r \<le> 1 \<and> 0 \<le> g \<and> g \<le> 1 \<and> 0 \<le> b \<and> b \<le> 1"
    using hexToRgb_range [OF test ch] .
  have hs: "0 \<le> h" "h < 1" "0 \<le> sat" "sat \<le> 1"
    using rgbToHsl_range [OF _ _ _ _ _ _ hsl] unit by simp_all
  have l: "0 \<le> s / 100" "s / 100 \<le> 1" using lo hi by simp_all
  have new: "0 \<le> nr \<and> nr \<le> 1 \<and> 0 \<le> ng \<and> ng \<le> 1 \<and> 0 \<le> nb \<and> nb \<le> 1"
    using hslToRgb_props(1) [OF hs l rgb] .
  define kr where "kr = nat (round (nr * 255))"
  define kg where "kg = nat (round (ng * 255))"
  define kb where "kb = nat (round (nb * 255))"
  have small: "kr < 256" "kg < 256" "kb < 256"
    using new round_unit_255 [of nr] round_unit_255 [of ng] round_unit_255 [of nb]
    by (simp_all add: kr_def kg_def kb_def)
  have adm: "admissibleLevel nr kr" "admissibleLevel ng kg" "admissibleLevel nb kb"
    using new by (simp_all add: kr_def kg_def kb_def admissible_round)
  have out: "adjustColorBrightness c s
             = CHR ''#'' # twoDigitHex kr @ twoDigitHex kg @ twoDigitHex kb"
    using test ch hsl rgb new
    by (simp add: adjustColorBrightness_def toHex_unit kr_def kg_def kb_def)
  show ?thesis
    unfolding out using test ch hsl rgb adm levelsOf_print [OF small]
    by (simp add: adjustsTo_def)
qed

text \<open>
  C6, amended. For a valid color with hue \<open>h\<close> and saturation \<open>sat\<close>, a shade \<open>s\<close>
  from 0 to 100 and a string \<open>out\<close> the program can return: the ideal color
  \<open>hslToRgb h sat (s / 100)\<close>, which does not depend on the lightness of the input, has
  lightness exactly \<open>s / 100\<close>, and hue and saturation exactly \<open>h\<close> and \<open>sat\<close> when
  the input is achromatic or the shade lies strictly between 0 and 100. Each channel of
  the returned color is within \<open>channelTolerance\<close> (half a level of 255 and the rounding
  of the doubles) of the channel of the ideal color, and the lightness of the returned
  color is within \<open>channelTolerance\<close> of \<open>s / 100\<close>. At shade 0 the returned color is
  \<open>#000000\<close> and at shade 100 it is \<open>#ffffff\<close>, with hue and saturation 0.
\<close>

theorem adjust_within_tolerance:
  assumes valid: "canonicalHex c" and lo: "0 \<le> s" and hi: "s \<le> 100"
    and hsl: "hslOfHex c = (h, sat, l0)"
    and rgb: "hslToRgb h sat (s / 100) = (nr, ng, nb)"
    and out: "adjustsTo c s out"
    and ret: "hexToRgb (cleanHexOf out) = (r', g', b')"
  shows "snd (snd (rgbToHsl nr ng nb)) = s / 100
         \<and> (sat = 0 \<or> (0 < s \<and> s < 100) \<longrightarrow> rgbToHsl nr ng nb = (h, sat, s / 100))
         \<and> \<bar>r' - nr\<bar> \<le> channelTolerance
         \<and> \<bar>g' - ng\<bar> \<le> channelTolerance
         \<and> \<bar>b' - nb\<bar> \<le> channelTolerance
         \<and> \<bar>snd (snd (hslOfHex out)) - s / 100\<bar> \<le> channelTolerance
         \<and> (s = 0 \<longrightarrow> out = ''#000000'' \<and> hslOfHex out = (0, 0, 0))
         \<and> (s = 100 \<longrightarrow> out = ''#ffffff'' \<and> hslOfHex out = (0, 0, 1))
         \<and> adjustsTo c s (adjustColorBrightness c s)"
proof -
  have test: "hexRegexTest (cleanHexOf c)" using valid by (simp add: canonicalHex_iff)
  obtain r g b where ch: "hexToRgb (cleanHexOf c) = (r, g, b)"
    by (cases "hexToRgb (cleanHexOf c)") auto
  have hsl': "rgbToHsl r g b = (h, sat, l0)" using hsl ch by (simp add: hslOfHex_def)
  have unit: "0 \<le> r \<and> r \<le> 1 \<and> 0 \<le> g \<and> g \<le> 1 \<and> 0 \<le> b \<and> b \<le> 1"
    using hexToRgb_range [OF test ch] .
  have hs: "0 \<le> h" "h < 1" "0 \<le> sat" "sat \<le> 1" "sat = 0 \<longrightarrow> h = 0"
    using rgbToHsl_range [OF _ _ _ _ _ _ hsl'] unit by simp_all
  have l: "0 \<le> s / 100" "s / 100 \<le> 1" using lo hi by simp_all
  have light: "snd (snd (rgbToHsl nr ng nb)) = s / 100"
    using hslToRgb_props(2) [OF hs(1) hs(2) hs(3) hs(4) l rgb] .
  have keep: "rgbToHsl nr ng nb = (h, sat, s / 100)" if "sat = 0 \<or> (0 < s \<and> s < 100)"
  proof (cases "sat = 0")
    case True
    then have "h = 0" using hs(5) by simp
    moreover have "(nr, ng, nb) = (s / 100, s / 100, s / 100)"
      using rgb unfolding True hslToRgb_gray by (rule sym)
    then have "rgbToHsl nr ng nb = rgbToHsl (s / 100) (s / 100) (s / 100)"
      by (simp only: prod.inject)
    ultimately show ?thesis unfolding True by (simp only: rgbToHsl_gray)
  next
    case False
    then have "0 < sat" using hs(3) by simp
    moreover have "0 < s / 100" "s / 100 < 1" using that False by simp_all
    ultimately show ?thesis using hsl_roundtrip [OF hs(1) hs(2) _ _ _ rgb] by simp
  qed
  obtain kr kg kb where lv: "levelsOf out = Some (kr, kg, kb)"
    and adm: "admissibleLevel nr kr" "admissibleLevel ng kg" "admissibleLevel nb kb"
    using out test ch hsl' rgb
    by (cases "levelsOf out") (auto simp: adjustsTo_def)
  have form: "out = CHR ''#'' # twoDigitHex kr @ twoDigitHex kg @ twoDigitHex kb"
    and chan: "hexToRgb (cleanHexOf out) = (real kr / 255, real kg / 255, real kb / 255)"
    using levelsOf_Some [OF lv] by simp_all
  have ret': "r' = real kr / 255" "g' = real kg / 255" "b' = real kb / 255"
    using ret chan by simp_all
  have close: "\<bar>r' - nr\<bar> \<le> channelTolerance" "\<bar>g' - ng\<bar> \<le> channelTolerance"
    "\<bar>b' - nb\<bar> \<le> channelTolerance"
    unfolding ret' using adm by (simp_all add: admissible_close)
  have "snd (snd (hslOfHex out)) = snd (snd (rgbToHsl r' g' b'))"
    using ret by (simp add: hslOfHex_def)
  then have lclose: "\<bar>snd (snd (hslOfHex out)) - s / 100\<bar> \<le> channelTolerance"
    using lightness_close [OF close] light by simp
  have black: "out = ''#000000'' \<and> hslOfHex out = (0, 0, 0)" if "s = 0"
  proof -
    have "(nr, ng, nb) = (0, 0, 0)" using rgb that by (simp add: hslToRgb_black)
    then have "kr = 0" "kg = 0" "kb = 0" using adm by (simp_all add: admissible_zero)
    then have o: "out = ''#000000''" using form by (simp add: twoDigitHex_def hexChar_def)
    show ?thesis unfolding o
      by (simp add: hslOfHex_def cleanHexOf_def hexToRgb_def parseInt16_def substr_def
          hexDigitValue_def rgbToHsl_def)
  qed
  have white: "out = ''#ffffff'' \<and> hslOfHex out = (0, 0, 1)" if "s = 100"
  proof -
    have "(nr, ng, nb) = (1, 1, 1)" using rgb that by (simp add: hslToRgb_white)
    then have "kr = 255" "kg = 255" "kb = 255" using adm by (simp_all add: admissible_one)
    then have o: "out = ''#ffffff''" using form by (simp add: twoDigitHex_def hexChar_def)
    show ?thesis unfolding o
      by (simp add: hslOfHex_def cleanHexOf_def hexToRgb_def parseInt16_def substr_def
          hexDigitValue_def rgbToHsl_def)
  qed
  have k: "sat = 0 \<or> (0 < s \<and> s < 100) \<longrightarrow> rgbToHsl nr ng nb = (h, sat, s / 100)"
    using keep by blast
  have bl: "s = 0 \<longrightarrow> out = ''#000000'' \<and> hslOfHex out = (0, 0, 0)"
    using black by blast
  have wh: "s = 100 \<longrightarrow> out = ''#ffffff'' \<and> hslOfHex out = (0, 0, 1)"
    using white by blast
  show ?thesis
    by (intro conjI light k close lclose bl wh exact_output_admissible [OF valid lo hi])
qed

theorem adjust_within_tolerance_witness:
  "canonicalHex ''#4B0082'' \<and> (0::real) \<le> 26 \<and> (26::real) \<le> 100
   \<and> hslOfHex ''#4B0082'' = (119 / 156, 1, 65 / 255)
   \<and> hslToRgb (119 / 156) 1 (26 / 100) = (3 / 10, 0, 13 / 25)
   \<and> adjustsTo ''#4B0082'' 26 ''#4c0085''
   \<and> hexToRgb (cleanHexOf ''#4c0085'') = (76 / 255, 0, 133 / 255)
   \<and> rgbToHsl (3 / 10) 0 (13 / 25) = (119 / 156, 1, 26 / 100)
   \<and> \<bar>76 / 255 - 3 / 10\<bar> \<le> channelTolerance
   \<and> \<bar>133 / 255 - 13 / 25\<bar> \<le> channelTolerance
   \<and> \<bar>snd (snd (hslOfHex ''#4c0085'')) - 26 / 100\<bar> \<le> channelTolerance
   \<and> adjustsTo ''#4B0082'' 26 (adjustColorBrightness ''#4B0082'' 26)"
proof -
  have valid: "canonicalHex ''#4B0082''"
    by (simp add: canonicalHex_def hexRegexTest_def isHexDigit_def hexDigitValue_def)
  have lo: "(0::real) \<le> 26" and hi: "(26::real) \<le> 100" by simp_all
  have hsl: "hslOfHex ''#4B0082'' = (119 / 156, 1, 65 / 255)"
    by (simp add: hslOfHex_def hexToRgb_def cleanHexOf_def parseInt16_def substr_def
        hexDigitValue_def rgbToHsl_def Let_def)
  have rgb: "hslToRgb (119 / 156) 1 (26 / 100) = (3 / 10, 0, 13 / 25)"
    by (simp add: hslToRgb_def hueToRgb_def Let_def)
  have lv: "levelsOf ''#4c0085'' = Some (76, 0, 133)"
    by (simp add: levelsOf_def Let_def hexRegexTest_def isHexDigit_def hexDigitValue_def
        parseInt16_def substr_def twoDigitHex_def hexChar_def)
  have out: "adjustsTo ''#4B0082'' 26 ''#4c0085''"
    by (simp add: adjustsTo_def cleanHexOf_def hexRegexTest_def isHexDigit_def
        hexDigitValue_def hexToRgb_def parseInt16_def substr_def rgbToHsl_def hslToRgb_def
        hueToRgb_def Let_def lv admissibleLevel_def roundingSlack_def)
  have ret: "hexToRgb (cleanHexOf ''#4c0085'') = (76 / 255, 0, 133 / 255)"
    by (simp add: hexToRgb_def cleanHexOf_def parseInt16_def substr_def hexDigitValue_def)
  show ?thesis
    using valid hsl rgb out ret adjust_within_tolerance [OF valid lo hi hsl rgb out ret]
    by simp
qed

section \<open>Furniture builders and the scene\<close>

subsection \<open>Falsy fields\<close>

lemma Chair_zero: "zeroAsMissing Chair 50 item h"
  by (simp add: zeroAsMissing_def Chair_def orNum_def itemPosition_def)

lemma Table_zero: "zeroAsMissing Table 50 item h"
  by (simp add: zeroAsMissing_def Table_def orNum_def itemPosition_def)

lemma Sofa_zero: "zeroAsMissing Sofa 30 item h"
  by (simp add: zeroAsMissing_def Sofa_def orNum_def itemPosition_def)

lemma Bookshelf_zero: "zeroAsMissing Bookshelf 50 item h"
  by (simp add: zeroAsMissing_def Bookshelf_def orNum_def itemPosition_def)

lemma TVStand_zero: "zeroAsMissing TVStand 50 item h"
  by (simp add: zeroAsMissing_def TVStand_def orNum_def itemPosition_def)

lemma Bed_zero: "zeroAsMissing Bed 30 item h"
  by (simp add: zeroAsMissing_def Bed_def orNum_def itemPosition_def)

lemma Lamp_zero: "zeroAsMissing Lamp 70 item h"
  by (simp add: zeroAsMissing_def Lamp_def orNum_def itemPosition_def)

lemma children_zero_shade:
  "furnitureChildren (item\<lparr>item_shade := Some 0\<rparr>) h
   = furnitureChildren (item\<lparr>item_shade := None\<rparr>) h"
  using Chair_zero [of item h] Table_zero [of item h] Sofa_zero [of item h]
    Bookshelf_zero [of item h]
    TVStand_zero [of item h] Bed_zero [of item h] Lamp_zero [of item h]
  by (simp add: furnitureChildren_def zeroAsMissing_def)

lemma children_zero_scale:
  "furnitureChildren (item\<lparr>item_scale := Some 0\<rparr>) h
   = furnitureChildren (item\<lparr>item_scale := None\<rparr>) h"
  using Chair_zero [of item h] Table_zero [of item h] Sofa_zero [of item h]
    Bookshelf_zero [of item h]
    TVStand_zero [of item h] Bed_zero [of item h] Lamp_zero [of item h]
  by (simp add: furnitureChildren_def zeroAsMissing_def)

text \<open>
  C10. For each of the seven builders, a shade that is present and 0 builds exactly what
  an absent shade builds, and that is what the default shade of the type builds (50 for
  chair, table, bookshelf and TV stand, 30 for sofa and bed, 70 for lamp); a scale that
  is present and 0 builds what an absent scale and what scale 1 build. So the rendered
  children of an item do not tell a zero from an absent field.
\<close>

theorem zero_shade_scale_as_missing:
  "zeroAsMissing Chair 50 item h \<and> zeroAsMissing Table 50 item h
   \<and> zeroAsMissing Sofa 30 item h \<and> zeroAsMissing Bookshelf 50 item h
   \<and> zeroAsMissing TVStand 50 item h \<and> zeroAsMissing Bed 30 item h
   \<and> zeroAsMissing Lamp 70 item h
   \<and> furnitureChildren (item\<lparr>item_shade := Some 0\<rparr>) h
       = furnitureChildren (item\<lparr>item_shade := None\<rparr>) h
   \<and> furnitureChildren (item\<lparr>item_scale := Some 0\<rparr>) h
       = furnitureChildren (item\<lparr>item_scale := None\<rparr>) h"
  using Chair_zero Table_zero Sofa_zero Bookshelf_zero TVStand_zero Bed_zero Lamp_zero
    children_zero_shade children_zero_scale by blast

subsection \<open>Dispatch on the type tag\<close>

text \<open>
  C4, as stated, fails at the tag \<open>tv-stand\<close>: \<open>Scene\<close> compares with \<open>tvstand\<close>,
  and a descriptor of type \<open>tv-stand\<close> gets no composition.
\<close>

theorem tv_stand_counterexample:
  "item_type tvStandItem = ''tv-stand'' \<and> furnitureChildren tvStandItem 5 = []
   \<and> furnitureChildren tvStandItem 5 \<noteq> [TVStand tvStandItem 5]"
  by (simp add: furnitureChildren_def tvStandItem_def)

lemma dispatch_chain:
  "furnitureChildren item h =
     (if item_type item = ''chair'' then [Chair item h]
      else if item_type item = ''table'' then [Table item h]
      else if item_type item = ''sofa'' then [Sofa item h]
      else if item_type item = ''bookshelf'' then [Bookshelf item h]
      else if item_type item = ''tvstand'' then [TVStand item h]
      else if item_type item = ''bed'' then [Bed item h]
      else if item_type item = ''lamp'' then [Lamp item h]
      else [])"
  by (simp add: furnitureChildren_def)

lemma composition_geometries:
  "map meshGeometry (groupChildren (Chair item h)) =
     [BoxGeometry 1 0.1 1, BoxGeometry 1 0.8 0.1, CylinderGeometry 0.05 0.05 0.5 16,
      CylinderGeometry 0.05 0.05 0.5 16, CylinderGeometry 0.05 0.05 0.5 16,
      CylinderGeometry 0.05 0.05 0.5 16]"
  "map meshGeometry (groupChildren (Table item h)) =
     [BoxGeometry 2 0.2 1.5, CylinderGeometry 0.05 0.05 0.8 16,
      CylinderGeometry 0.05 0.05 0.8 16, CylinderGeometry 0.05 0.05 0.8 16,
      CylinderGeometry 0.05 0.05 0.8 16]"
  "map meshGeometry (groupChildren (Sofa item h)) =
     [BoxGeometry 3 0.5 1, BoxGeometry 3 1 0.2, BoxGeometry 0.4 0.5 1, BoxGeometry 0.4 0.5 1]"
  "map meshGeometry (groupChildren (Bookshelf item h)) =
     [BoxGeometry 2 2 0.5, BoxGeometry 2 0.1 0.5, BoxGeometry 2 0.1 0.5]"
  "map meshGeometry (groupChildren (TVStand item h)) =
     [BoxGeometry 3 0.8 0.8, BoxGeometry 3 0.1 0.8]"
  "map meshGeometry (groupChildren (Bed item h)) =
     [BoxGeometry 2.5 0.4 4, BoxGeometry 2.5 0.6 0.4, CylinderGeometry 0.1 0.1 0.4 16,
      CylinderGeometry 0.1 0.1 0.4 16, CylinderGeometry 0.1 0.1 0.4 16,
      CylinderGeometry 0.1 0.1 0.4 16]"
  "map meshGeometry (groupChildren (Lamp item h)) =
     [CylinderGeometry 0.2 0.2 1 16, ConeGeometry 0.4 0.6 16, SphereGeometry 0.2 16 16]"
  "meshMaterial (groupChildren (Lamp item h) ! 2) = bulbMaterial"
  by (simp_all add: Chair_def Table_def Sofa_def Bookshelf_def TVStand_def Bed_def Lamp_def
      shadowMesh_def Let_def)

text \<open>
  C4, amended. The tags are \<open>chair\<close>, \<open>table\<close>, \<open>sofa\<close>, \<open>bookshelf\<close>, \<open>tvstand\<close>,
  \<open>bed\<close> and \<open>lamp\<close>: an item with one of them gets the composition of that builder
  and nothing else, an item with any other tag gets none. The compositions are: chair,
  two boxes and four cylinders; table, a box and four cylinders; sofa, four boxes;
  bookshelf, three boxes; TV stand, two boxes; bed, two boxes and four cylinders; lamp,
  a cylinder, a cone and a sphere with the bulb material. An item's group does not
  depend on the items before and after it.
\<close>

theorem type_dispatch:
  "furnitureChildren item h =
     (if item_type item = ''chair'' then [Chair item h]
      else if item_type item = ''table'' then [Table item h]
      else if item_type item = ''sofa'' then [Sofa item h]
      else if item_type item = ''bookshelf'' then [Bookshelf item h]
      else if item_type item = ''tvstand'' then [TVStand item h]
      else if item_type item = ''bed'' then [Bed item h]
      else if item_type item = ''lamp'' then [Lamp item h]
      else [])
   \<and> map meshGeometry (groupChildren (Chair item h)) =
       [BoxGeometry 1 0.1 1, BoxGeometry 1 0.8 0.1, CylinderGeometry 0.05 0.05 0.5 16,
        CylinderGeometry 0.05 0.05 0.5 16, CylinderGeometry 0.05 0.05 0.5 16,
        CylinderGeometry 0.05 0.05 0.5 16]
   \<and> map meshGeometry (groupChildren (Table item h)) =
       [BoxGeometry 2 0.2 1.5, CylinderGeometry 0.05 0.05 0.8 16,
        CylinderGeometry 0.05 0.05 0.8 16, CylinderGeometry 0.05 0.05 0.8 16,
        CylinderGeometry 0.05 0.05 0.8 16]
   \<and> map meshGeometry (groupChildren (Sofa item h)) =
       [BoxGeometry 3 0.5 1, BoxGeometry 3 1 0.2, BoxGeometry 0.4 0.5 1, BoxGeometry 0.4 0.5 1]
   \<and> map meshGeometry (groupChildren (Bookshelf item h)) =
       [BoxGeometry 2 2 0.5, BoxGeometry 2 0.1 0.5, BoxGeometry 2 0.1 0.5]
   \<and> map meshGeometry (groupChildren (TVStand item h)) =
       [BoxGeometry 3 0.8 0.8, BoxGeometry 3 0.1 0.8]
   \<and> map meshGeometry (groupChildren (Bed item h)) =
       [BoxGeometry 2.5 0.4 4, BoxGeometry 2.5 0.6 0.4, CylinderGeometry 0.1 0.1 0.4 16,
        CylinderGeometry 0.1 0.1 0.4 16, CylinderGeometry 0.1 0.1 0.4 16,
        CylinderGeometry 0.1 0.1 0.4 16]
   \<and> map meshGeometry (groupChildren (Lamp item h)) =
       [CylinderGeometry 0.2 0.2 1 16, ConeGeometry 0.4 0.6 16, SphereGeometry 0.2 16 16]
   \<and> meshMaterial (groupChildren (Lamp item h) ! 2) = bulbMaterial
   \<and> sceneFurniture (before @ item # after) h =
       sceneFurniture before h @ furnitureGroup item h # sceneFurniture after h"
  using dispatch_chain [of item h] composition_geometries [of item h]
  by (simp add: sceneFurniture_def)

section \<open>The room shell\<close>

lemma facing_up: "applyEuler (Vector3 (- (pi / 2)) 0 0) (Vector3 0 0 1) = Vector3 0 1 0"
  by (simp add: applyEuler_def rotateX_def rotateY_def rotateZ_def)

lemma facing_down: "applyEuler (Vector3 (pi / 2) 0 0) (Vector3 0 0 1) = Vector3 0 (- 1) 0"
  by (simp add: applyEuler_def rotateX_def rotateY_def rotateZ_def)

text \<open>
  C9. For a room whose height is present and positive, the floor lies at
  \<open>y = - height / 2\<close> and faces up, and the ceiling lies at \<open>y = height / 2\<close> and
  faces down.
\<close>

theorem room_floor_ceiling:
  assumes "room_height room = Some h" and "0 < h"
  shows "meshPosition (floorOf room) = Vector3 0 (- h / 2) 0
         \<and> facing (floorOf room) = Vector3 0 1 0
         \<and> mat_map (meshMaterial (floorOf room)) = Some ''/textures/wooden_floor_02_diff_1k.jpg''
         \<and> meshPosition (ceilingOf room) = Vector3 0 (h / 2) 0
         \<and> facing (ceilingOf room) = Vector3 0 (- 1) 0
         \<and> mat_map (meshMaterial (ceilingOf room)) = Some ''/textures/ceiling_tile_diff_1k.jpg''"
  using assms
  by (simp add: floorOf_def ceilingOf_def Room_def Let_def surfaceMesh_def facing_def
      facing_up facing_down orNum_def texturedMaterial_def)

theorem room_floor_ceiling_witness:
  "room_height exampleRoom = Some 5 \<and> (0::real) < 5
   \<and> meshPosition (floorOf exampleRoom) = Vector3 0 (- 5 / 2) 0
   \<and> facing (floorOf exampleRoom) = Vector3 0 1 0
   \<and> meshPosition (ceilingOf exampleRoom) = Vector3 0 (5 / 2) 0
   \<and> facing (ceilingOf exampleRoom) = Vector3 0 (- 1) 0"
proof -
  have h: "room_height exampleRoom = Some 5" by (simp add: exampleRoom_def)
  have p: "(0::real) < 5" by simp
  show ?thesis using h room_floor_ceiling [OF h p] by simp
qed

section \<open>Cameras and the view mode\<close>



subsection \<open>The camera after \<open>OrbitControls.update\<close>\<close>

text \<open>
  \<open>update\<close> keeps the distance of the camera from the target. In the top-down view it
  moves the camera off the axis above the target, by the smallest polar angle it allows:
  from \<open>(0, 10, 0)\<close> to about \<open>(0, 9.999999999995, 0.00001)\<close>.
\<close>

lemma setFromSpherical_norm:
  "vx (setFromSpherical (r, phi, theta)) ^ 2 + vy (setFromSpherical (r, phi, theta)) ^ 2
     + vz (setFromSpherical (r, phi, theta)) ^ 2 = r ^ 2"
proof -
  have sel: "vx (setFromSpherical (r, phi, theta)) = sin phi * r * sin theta"
    "vy (setFromSpherical (r, phi, theta)) = cos phi * r"
    "vz (setFromSpherical (r, phi, theta)) = sin phi * r * cos theta"
    by (simp_all add: setFromSpherical_def Let_def)
  have "(sin phi * r * sin theta) ^ 2 + (cos phi * r) ^ 2 + (sin phi * r * cos theta) ^ 2
        = r ^ 2"
    by (simp add: sin_squared_eq algebra_simps)
  then show ?thesis by (simp only: sel)
qed

lemma setFromVector3_radius:
  assumes "setFromVector3 v = (radius, phi, theta)"
  shows "0 \<le> radius" and "radius ^ 2 = vx v ^ 2 + vy v ^ 2 + vz v ^ 2"
proof -
  have r: "radius = sqrt (vx v * vx v + vy v * vy v + vz v * vz v)"
    using assms by (auto simp: setFromVector3_def Let_def split: if_splits)
  have nn: "0 \<le> vx v * vx v + vy v * vy v + vz v * vz v" by simp
  show "0 \<le> radius" using r nn by simp
  show "radius ^ 2 = vx v ^ 2 + vy v ^ 2 + vz v ^ 2"
    using r nn by (simp add: power2_eq_square)
qed

lemma orbitPosition_distance:
  "(vx (orbitPosition t p) - vx t) ^ 2 + (vy (orbitPosition t p) - vy t) ^ 2
     + (vz (orbitPosition t p) - vz t) ^ 2
   = (vx p - vx t) ^ 2 + (vy p - vy t) ^ 2 + (vz p - vz t) ^ 2"
proof -
  define offset where "offset = Vector3 (vx p - vx t) (vy p - vy t) (vz p - vz t)"
  obtain radius phi theta where sph: "setFromVector3 offset = (radius, phi, theta)"
    by (cases "setFromVector3 offset") auto
  define phi2 where "phi2 = makeSafe (max 0 (min pi phi))"
  have rad: "0 \<le> radius" "radius ^ 2 = vx offset ^ 2 + vy offset ^ 2 + vz offset ^ 2"
    using setFromVector3_radius [OF sph] by simp_all
  have pos: "orbitPosition t p =
      Vector3 (vx t + vx (setFromSpherical (radius, phi2, theta)))
              (vy t + vy (setFromSpherical (radius, phi2, theta)))
              (vz t + vz (setFromSpherical (radius, phi2, theta)))"
    using sph rad(1) by (simp add: orbitPosition_def offset_def [symmetric] Let_def phi2_def max_def)
  show ?thesis
    using setFromSpherical_norm [of radius phi2 theta] rad(2)
    by (simp add: pos offset_def)
qed

lemma sqrt_100: "sqrt 100 = 10"
  by (rule real_sqrt_unique) simp_all

lemma topdown_position:
  "orbitPosition (Vector3 0 0 0) (Vector3 0 10 0)
   = Vector3 0 (cos 0.000001 * 10) (sin 0.000001 * 10)"
proof -
  have sph: "setFromVector3 (Vector3 0 10 0) = (10, 0, 0)"
    by (simp add: setFromVector3_def Let_def sqrt_100 clamp_def atan2_def)
  have "(2::real) \<le> pi" by (rule pi_ge_two)
  then have safe: "makeSafe 0 = 1 / 1000000"
    by (simp add: makeSafe_def clamp_def)
  show ?thesis
    by (simp add: orbitPosition_def setFromSpherical_def Let_def sph safe)
qed

text \<open>
  C3, as stated, fails for a free view that the user has orbited to \<open>(5, 5, 5)\<close>: the
  round trip does not bring the camera back there.
\<close>

theorem roundtrip_counterexample:
  "viewModeEffect ''3D'' (viewModeEffect ''2D'' orbitedFreeState) \<noteq> orbitedFreeState"
proof
  assume eq: "viewModeEffect ''3D'' (viewModeEffect ''2D'' orbitedFreeState) = orbitedFreeState"
  have "cam_position (viewModeEffect ''3D'' (viewModeEffect ''2D'' orbitedFreeState))
        = orbitPosition (Vector3 0 0 0) (Vector3 10 10 10)"
    by (simp add: viewModeEffect_def controlsUpdate_def orbitedFreeState_def Let_def)
  then have "orbitPosition (Vector3 0 0 0) (Vector3 10 10 10) = Vector3 5 5 5"
    using eq by (simp add: orbitedFreeState_def)
  then show False
    using orbitPosition_distance [of "Vector3 0 0 0" "Vector3 10 10 10"] by simp
qed

text \<open>
  C3, amended. Switching from the free view to the top-down view and back gives the
  state that switching to the free view gives directly: the camera where
  \<open>OrbitControls.update\<close> puts it from the preset \<open>(10, 10, 10)\<close>, turned to the target,
  with rotate, zoom and pan enabled, whatever the pose was before. So a free view as
  it was entered is restored exactly, gestures included (the top-down view in between
  has rotate disabled), and a pose the user has moved to since is not.
\<close>

theorem roundtrip_to_free:
  "viewModeEffect ''3D'' (viewModeEffect ''2D'' st) =
     (case cam_controls st of
        None \<Rightarrow> st\<lparr>cam_position := Vector3 10 10 10, cam_lookAt := Vector3 0 0 0\<rparr>
      | Some c \<Rightarrow>
          st\<lparr>cam_position := orbitPosition (ctl_target c) (Vector3 10 10 10),
             cam_lookAt := ctl_target c,
             cam_controls :=
               Some (c\<lparr>enableRotate := True, enableZoom := True, enablePan := True\<rparr>)\<rparr>)
   \<and> viewModeEffect ''3D'' (viewModeEffect ''2D'' st) = viewModeEffect ''3D'' st
   \<and> viewModeEffect ''3D'' (viewModeEffect ''2D'' (viewModeEffect ''3D'' st))
       = viewModeEffect ''3D'' st
   \<and> map_option (\<lambda>c. (enableRotate c, enableZoom c, enablePan c))
        (cam_controls (viewModeEffect ''3D'' (viewModeEffect ''2D'' st)))
       = map_option (\<lambda>c. (True, True, True)) (cam_controls st)
   \<and> map_option (\<lambda>c. (enableRotate c, enableZoom c, enablePan c))
        (cam_controls (viewModeEffect ''2D'' st))
       = map_option (\<lambda>c. (False, True, True)) (cam_controls st)"
  by (cases "cam_controls st") (simp_all add: viewModeEffect_def controlsUpdate_def Let_def)

section \<open>Picking and dragging\<close>

subsection \<open>The plane of the drag\<close>

text \<open>
  Nothing is reported while no item is selected, and every point that the drag plane
  of the source yields lies at \<open>y = + roomHeight / 2\<close>.
\<close>

lemma handleMouseMove_idle: "handleMouseMove None ray plane = []"
  by (simp add: handleMouseMove_def)

lemma dragPlane_height:
  "intersectPlane ray (dragPlane h) = Some p \<Longrightarrow> vy p = h / 2"
  by (auto simp: intersectPlane_def distanceToPlane_def distanceToPoint_def dragPlane_def dot_def
      rayAt_def Let_def field_simps split: option.splits if_splits)

text \<open>
  C1, the code at a failing input. Room height 5, item 0 selected, the pointer ray from
  \<open>(10, 10, 10)\<close> with direction \<open>(-0.48, -0.8, -0.36)\<close>: the plane of the source is
  met at height \<open>+2.5\<close>, and the handler reports \<open>x = 5.5\<close>, \<open>z = 6.625\<close>. The plane
  at the height of the floor, \<open>y = -2.5\<close>, has the constant \<open>+2.5\<close> and is met at
  \<open>x = 2.5\<close>, \<open>z = 4.375\<close>.
\<close>

theorem drag_plane_eval:
  "intersectPlane freeCameraRay (dragPlane 5) = Some (Vector3 5.5 2.5 6.625)
   \<and> handleMouseMove (Some 0) freeCameraRay (dragPlane 5) = [UpdateFurniture 0 5.5 6.625]
   \<and> intersectPlane freeCameraRay (Plane (Vector3 0 1 0) (5 / 2)) = Some (Vector3 2.5 (- 2.5) 4.375)"
  by (simp add: handleMouseMove_def intersectPlane_def distanceToPlane_def distanceToPoint_def
      dragPlane_def dot_def rayAt_def freeCameraRay_def Let_def)

subsection \<open>Resolving a hit to an item\<close>

text \<open>
  The parent of every mesh of the furniture is the group its builder returns, which
  carries no id: a pointer-down on furniture never changes the selection.
\<close>

lemma nodeAt_Nil: "nodeAt [] p = None"
proof (cases p)
  case Nil
  then show ?thesis by simp
next
  case (Cons i q)
  then show ?thesis by (cases q) simp_all
qed

lemma builder_group:
  assumes "c \<in> set (furnitureChildren item h)"
  shows "userDataId c = None \<and> \<not> isMesh c \<and> list_all isMesh (childrenOf c)
         \<and> list_all (\<lambda>m. childrenOf m = []) (childrenOf c)"
  using assms
  by (auto simp: furnitureChildren_def Chair_def Table_def Sofa_def Bookshelf_def TVStand_def
      Bed_def Lamp_def shadowMesh_def Let_def split: if_splits)

lemma findIndex_never: "findIndex (\<lambda>x. False) xs = - 1"
  by (induction xs) simp_all

lemma mesh_parent_no_id:
  assumes "hitsMesh (sceneFurniture furniture h) hit"
  shows "parentUserDataId (sceneFurniture furniture h) (hit_object hit) = None"
proof -
  let ?objs = "sceneFurniture furniture h"
  obtain n where n: "nodeAt ?objs (hit_object hit) = Some n" and mesh: "isMesh n"
    using assms by (auto simp: hitsMesh_def split: option.splits)
  show ?thesis
  proof (cases "hit_object hit")
    case Nil
    then show ?thesis using n by simp
  next
    case (Cons i p1)
    note p0 = Cons
    have i: "i < length furniture" using n p0
      by (cases p1) (auto simp: sceneFurniture_def split: if_splits)
    have root: "?objs ! i = furnitureGroup (furniture ! i) h"
      using i by (simp add: sceneFurniture_def)
    let ?fc = "furnitureChildren (furniture ! i) h"
    show ?thesis
    proof (cases p1)
      case Nil
      then show ?thesis using n mesh p0 root i
        by (auto simp: furnitureGroup_def sceneFurniture_def split: if_splits)
    next
      case (Cons k p2)
      note p1 = Cons
      have k: "k < length ?fc" using n p0 p1 root i
        by (cases p2) (auto simp: sceneFurniture_def furnitureGroup_def nodeAt_Nil split: if_splits)
      have g: "userDataId (?fc ! k) = None \<and> \<not> isMesh (?fc ! k) \<and> list_all isMesh (childrenOf (?fc ! k))
         \<and> list_all (\<lambda>m. childrenOf m = []) (childrenOf (?fc ! k))"
        using builder_group [of "?fc ! k" "furniture ! i" h] k by simp
      have parent2: "nodeAt ?objs [i, k] = Some (?fc ! k)"
        using i k root by (simp add: furnitureGroup_def sceneFurniture_def)
      show ?thesis
      proof (cases p2)
        case Nil
        then show ?thesis using n mesh p0 p1 parent2 g by simp
      next
        case (Cons j p3)
        note p2 = Cons
        show ?thesis
        proof (cases p3)
          case Nil
          then show ?thesis using p0 p1 p2 parent2 g
            by (simp add: parentUserDataId_def)
        next
          case (Cons m p4)
          have "nodeAt ?objs (hit_object hit) = None"
            using p0 p1 p2 Cons i k root g
            by (auto simp: sceneFurniture_def furnitureGroup_def nodeAt_Nil list_all_length)
          then show ?thesis using n by simp
        qed
      qed
    qed
  qed
qed

lemma handleMouseDown_keeps:
  assumes "hitsMesh (sceneFurniture furniture h) hit"
  shows "handleMouseDown selected furniture (sceneFurniture furniture h) (hit # rest) = selected"
  using mesh_parent_no_id [OF assms]
  by (simp add: handleMouseDown_def findIndex_never)

text \<open>
  C2, the code at a failing input. Furniture \<open>a\<close> and \<open>b\<close>, nothing selected, and a ray
  that hits only the chair of \<open>b\<close>: the hit is a mesh, the \<open>userData.id\<close> of its parent
  is undefined (the id \<open>b\<close> is on the parent of the parent), the selection stays
  empty, and a pointer-move that follows reports nothing.
\<close>

theorem pointer_down_eval:
  "hitsMesh (sceneFurniture [itemA, itemB] 5) hitOnB
   \<and> parentUserDataId (sceneFurniture [itemA, itemB] 5) (hit_object hitOnB) = None
   \<and> parentUserDataId (sceneFurniture [itemA, itemB] 5) (butlast (hit_object hitOnB)) = Some ''b''
   \<and> handleMouseDown None [itemA, itemB] (sceneFurniture [itemA, itemB] 5) [hitOnB] = None
   \<and> handleMouseMove
         (handleMouseDown None [itemA, itemB] (sceneFurniture [itemA, itemB] 5) [hitOnB])
         freeCameraRay (dragPlane 5) = []"
  by (simp add: hitsMesh_def parentUserDataId_def handleMouseDown_def sceneFurniture_def
      furnitureGroup_def furnitureChildren_def itemA_def itemB_def hitOnB_def Chair_def
      shadowMesh_def Let_def handleMouseMove_def)

end
